theory Spec2Isabelle
  imports Complex_Main "HOL-Library.Char_ord" "HOL-Library.List_Lexorder" "HOL-Library.Sublist"
begin

section \<open>Data model\<close>

text \<open>
  The program is one function, \<^verbatim>\<open>process_data\<close> of \<^verbatim>\<open>create-dataset.py\<close>, that sends a
  pandas data frame through a fixed sequence of column operations. A frame is modelled as
  its number of rows and the ordered list of its columns, each a label with its cells; the
  list may repeat a label, as a frame may. A cell is a number (exact rational arithmetic
  stands for the floats), a text, or the missing value \<open>NaN\<close>.
\<close>

datatype cell = Num rat | Str string | NaN

datatype error =
  FileNotFoundError | IsADirectoryError | OSError | ParserError
  | KeyError | TypeError | ValueError | ZeroDivisionError

record table =
  nrows :: nat
  cols :: "(string \<times> cell list) list"

text \<open>\<^verbatim>\<open>df.columns\<close>: the labels, in order.\<close>

definition columns :: "table \<Rightarrow> string list" where
  "columns df = map fst (cols df)"

text \<open>Sequencing of steps that may raise: the first exception ends the run.\<close>

definition bind_err :: "error + 'a \<Rightarrow> ('a \<Rightarrow> error + 'b) \<Rightarrow> error + 'b" where
  "bind_err m f = (case m of Inl e \<Rightarrow> Inl e | Inr x \<Rightarrow> f x)"

section \<open>The fixed configuration\<close>

definition target_columns :: "string list" where
  "target_columns =
    [''age'', ''job=housemaid'', ''job=services'', ''job=admin.'', ''job=blue-collar'',
     ''job=technician'', ''job=retired'', ''job=management'', ''job=unemployed'',
     ''job=self-employed'', ''job=unknown'', ''job=entrepreneur'', ''job=student'',
     ''marital=married'', ''marital=single'', ''marital=divorced'', ''marital=unknown'',
     ''education=basic.4y'', ''education=high.school'', ''education=basic.6y'',
     ''education=basic.9y'', ''education=professional.course'', ''education=unknown'',
     ''education=university.degree'', ''education=illiterate'', ''default=0'',
     ''default=unknown'', ''default=1'', ''housing=0'', ''housing=1'', ''housing=unknown'',
     ''loan=0'', ''loan=1'', ''loan=unknown'', ''contact=cellular'', ''month=may'',
     ''month=jun'', ''month=jul'', ''month=aug'', ''month=oct'', ''month=nov'',
     ''month=dec'', ''month=mar'', ''month=apr'', ''month=sep'', ''day_of_week=mon'',
     ''day_of_week=tue'', ''day_of_week=wed'', ''day_of_week=thu'', ''day_of_week=fri'',
     ''duration'', ''campaign'', ''pdays'', ''previous'', ''poutcome=nonexistent'',
     ''poutcome=failure'', ''poutcome=success'', ''emp.var.rate'', ''cons.price.idx'',
     ''cons.conf.idx'', ''euribor3m'', ''nr.employed'', ''class'']"

definition numeric_cols :: "string list" where
  "numeric_cols =
    [''age'', ''duration'', ''campaign'', ''pdays'', ''previous'',
     ''emp.var.rate'', ''cons.price.idx'', ''cons.conf.idx'',
     ''euribor3m'', ''nr.employed'']"

definition categorical_cols :: "string list" where
  "categorical_cols =
    [''job'', ''marital'', ''education'', ''default'', ''housing'',
     ''loan'', ''contact'', ''month'', ''day_of_week'', ''poutcome'']"

text \<open>The literal the entry point compares the returned header with.\<close>

definition expected_header :: string where
  "expected_header = ''age,job=housemaid,job=services,job=admin.,job=blue-collar,job=technician,job=retired,job=management,job=unemployed,job=self-employed,job=unknown,job=entrepreneur,job=student,marital=married,marital=single,marital=divorced,marital=unknown,education=basic.4y,education=high.school,education=basic.6y,education=basic.9y,education=professional.course,education=unknown,education=university.degree,education=illiterate,default=0,default=unknown,default=1,housing=0,housing=1,housing=unknown,loan=0,loan=1,loan=unknown,contact=cellular,month=may,month=jun,month=jul,month=aug,month=oct,month=nov,month=dec,month=mar,month=apr,month=sep,day_of_week=mon,day_of_week=tue,day_of_week=wed,day_of_week=thu,day_of_week=fri,duration,campaign,pdays,previous,poutcome=nonexistent,poutcome=failure,poutcome=success,emp.var.rate,cons.price.idx,cons.conf.idx,euribor3m,nr.employed,class''"

section \<open>Python's string operations\<close>

text \<open>\<^verbatim>\<open>s.startswith(p)\<close>.\<close>

definition startswith :: "string \<Rightarrow> string \<Rightarrow> bool" where
  "startswith s p = (take (length p) s = p)"

text \<open>\<^verbatim>\<open>sub in s\<close>: \<open>sub\<close> occurs in \<open>s\<close> at some position.\<close>

fun str_in :: "string \<Rightarrow> string \<Rightarrow> bool" where
  "str_in sub [] = (sub = [])"
| "str_in sub (c # cs) = (startswith (c # cs) sub \<or> str_in sub cs)"

text \<open>
  \<^verbatim>\<open>s.replace(old, new, 1)\<close>: the leftmost occurrence of \<open>old\<close> is replaced, and
  \<open>s\<close> is returned as it is when there is none.
\<close>

fun str_replace_first :: "string \<Rightarrow> string \<Rightarrow> string \<Rightarrow> string" where
  "str_replace_first old new [] = (if old = [] then new else [])"
| "str_replace_first old new (c # cs) =
     (if startswith (c # cs) old then new @ drop (length old) (c # cs)
      else c # str_replace_first old new cs)"

text \<open>
  \<^verbatim>\<open>s.replace(old, new)\<close>: every occurrence, scanning from the left and resuming after
  each replaced occurrence. An empty \<open>old\<close> matches before every character and at the end.
\<close>

function str_replace :: "string \<Rightarrow> string \<Rightarrow> string \<Rightarrow> string" where
  "str_replace old new s =
     (if old = [] then new @ concat (map (\<lambda>c. c # new) s)
      else if s = [] then []
      else if startswith s old then new @ str_replace old new (drop (length old) s)
      else hd s # str_replace old new (tl s))"
  by pat_completeness auto
termination
  by (relation "measure (\<lambda>(old, new, s). length s)") (auto simp: neq_Nil_conv)

declare str_replace.simps [simp del]

text \<open>\<^verbatim>\<open>sep.join(xs)\<close>.\<close>

fun join :: "string \<Rightarrow> string list \<Rightarrow> string" where
  "join sep [] = []"
| "join sep [x] = x"
| "join sep (x # y # ys) = x @ sep @ join sep (y # ys)"

section \<open>Step 5: the rename pass\<close>

text \<open>
  The inner loop over \<^verbatim>\<open>categorical_cols\<close>, with its \<^verbatim>\<open>break\<close>: the first prefix
  the label starts with is rewritten, and the loop stops there.
\<close>

fun prefix_loop :: "string list \<Rightarrow> string \<Rightarrow> string" where
  "prefix_loop [] col = col"
| "prefix_loop (pfx # rest) col =
     (if startswith col (pfx @ ''_'')
      then str_replace_first (pfx @ ''_'') (pfx @ ''='') col
      else prefix_loop rest col)"

text \<open>One \<^verbatim>\<open>if old in final_col: final_col = final_col.replace(old, new)\<close>.\<close>

definition adjust :: "string \<Rightarrow> string \<Rightarrow> string \<Rightarrow> string" where
  "adjust old new final_col =
     (if str_in old final_col then str_replace old new final_col else final_col)"

text \<open>The body of the loop over \<^verbatim>\<open>df_encoded.columns\<close>: the new label of \<open>col\<close>.\<close>

definition final_col :: "string \<Rightarrow> string" where
  "final_col col =
     (let f0 = prefix_loop categorical_cols col;
          f1 = adjust ''default=no'' ''default=0'' f0;
          f2 = adjust ''default=yes'' ''default=1'' f1;
          f3 = adjust ''housing=no'' ''housing=0'' f2;
          f4 = adjust ''housing=yes'' ''housing=1'' f3;
          f5 = adjust ''loan=no'' ''loan=0'' f4;
          f6 = adjust ''loan=yes'' ''loan=1'' f5
      in f6)"

section \<open>Frame operations of pandas\<close>

text \<open>
  What pandas, the encoder of numbers to text and the file formats do is not part of the
  repository; the operations the program calls are modelled here by their documented
  behaviour. Three of them are left open and taken as parameters: the parser of
  \<^verbatim>\<open>read_csv\<close> (the text of a file to a frame, or an exception), the writer of
  \<^verbatim>\<open>to_csv\<close> (a frame to the text of a file), and Python's \<^verbatim>\<open>str\<close> on a number.
\<close>

record pandas =
  read_text :: "string \<Rightarrow> error + table"
  to_csv_text :: "table \<Rightarrow> string"
  num_str :: "rat \<Rightarrow> string"

text \<open>
  \<^verbatim>\<open>df[c]\<close>. A label the frame does not have raises \<^verbatim>\<open>KeyError\<close>. A label it has
  twice selects a frame, not a series, and each use the program makes of the selection
  (mapping a dictionary over it, the truth value of a comparison of its minima) raises;
  the model raises at the selection.
\<close>

definition getitem :: "table \<Rightarrow> string \<Rightarrow> error + cell list" where
  "getitem df c =
     (case map snd (filter (\<lambda>p. fst p = c) (cols df)) of
        [] \<Rightarrow> Inl KeyError
      | [xs] \<Rightarrow> Inr xs
      | _ \<Rightarrow> Inl ValueError)"

text \<open>\<^verbatim>\<open>df[c] = xs\<close>: the column labelled \<open>c\<close> is replaced where it stands, or appended.\<close>

definition setitem :: "table \<Rightarrow> string \<Rightarrow> cell list \<Rightarrow> table" where
  "setitem df c xs =
     (if c \<in> set (columns df)
      then df\<lparr>cols := map (\<lambda>p. if fst p = c then (c, xs) else p) (cols df)\<rparr>
      else df\<lparr>cols := cols df @ [(c, xs)]\<rparr>)"

text \<open>\<^verbatim>\<open>df.rename(columns=m)\<close>, the dictionary \<open>m\<close> given as the function on labels.\<close>

definition rename_columns :: "(string \<Rightarrow> string) \<Rightarrow> table \<Rightarrow> table" where
  "rename_columns m df = df\<lparr>cols := map (\<lambda>p. (m (fst p), snd p)) (cols df)\<rparr>"

text \<open>
  \<^verbatim>\<open>df.reindex(columns=new_columns, fill_value=v)\<close>: the frame with exactly the labels
  \<open>new_columns\<close>, in that order; a label the frame has keeps its cells, a label it lacks
  gets \<open>v\<close> in every row. A frame with a repeated label cannot be reindexed.
\<close>

definition reindex :: "table \<Rightarrow> string list \<Rightarrow> cell \<Rightarrow> error + table" where
  "reindex df new_columns fill_value =
     (if distinct (columns df)
      then Inr \<lparr>nrows = nrows df,
                cols = map (\<lambda>c. (c, case map_of (cols df) c of
                                       Some xs \<Rightarrow> xs
                                     | None \<Rightarrow> replicate (nrows df) fill_value))
                           new_columns\<rparr>
      else Inl ValueError)"

section \<open>Step 2: the label column\<close>

text \<open>\<^verbatim>\<open>Series.map({'yes': 1, 'no': 0})\<close> on one cell: a key that is not in the dictionary gives \<open>NaN\<close>.\<close>

definition class_map :: "cell \<Rightarrow> cell" where
  "class_map v = (if v = Str ''yes'' then Num 1 else if v = Str ''no'' then Num 0 else NaN)"

definition rename_y :: "string \<Rightarrow> string" where
  "rename_y c = (if c = ''y'' then ''class'' else c)"

text \<open>
  \<^verbatim>\<open>df['class']\<close> is a series when one column has the label. When several have it (the
  frame held both \<^verbatim>\<open>y\<close> and \<^verbatim>\<open>class\<close>) it is a frame, and mapping a dictionary over
  a frame raises \<^verbatim>\<open>TypeError\<close>, unless the frame has no row: then the mapping is
  skipped and the columns stay as they are.
\<close>

definition prepare :: "table \<Rightarrow> error + table" where
  "prepare df0 =
     (let df = rename_columns rename_y df0 in
      if ''class'' \<in> set (columns df)
      then (case map snd (filter (\<lambda>p. fst p = ''class'') (cols df)) of
              [s] \<Rightarrow> Inr (setitem df ''class'' (map class_map s))
            | frame \<Rightarrow> if nrows df = 0 then Inr df else Inl TypeError)
      else Inr df)"

section \<open>Step 3: min-max scaling\<close>

fun nums :: "cell list \<Rightarrow> rat list" where
  "nums [] = []"
| "nums (Num q # xs) = q # nums xs"
| "nums (x # xs) = nums xs"

fun strs :: "cell list \<Rightarrow> string list" where
  "strs [] = []"
| "strs (Str s # xs) = s # strs xs"
| "strs (x # xs) = strs xs"

text \<open>
  \<^verbatim>\<open>Series.min()\<close> and \<^verbatim>\<open>Series.max()\<close> skip missing cells; with no cell left the result
  is \<open>NaN\<close>. Texts compare with texts only: a column that mixes texts with numbers or with
  missing cells raises \<^verbatim>\<open>TypeError\<close>.
\<close>

definition col_min :: "cell list \<Rightarrow> error + cell" where
  "col_min xs =
     (if strs xs = [] then (if nums xs = [] then Inr NaN else Inr (Num (Min (set (nums xs)))))
      else if nums xs = [] \<and> NaN \<notin> set xs then Inr (Str (Min (set (strs xs))))
      else Inl TypeError)"

definition col_max :: "cell list \<Rightarrow> error + cell" where
  "col_max xs =
     (if strs xs = [] then (if nums xs = [] then Inr NaN else Inr (Num (Max (set (nums xs)))))
      else if nums xs = [] \<and> NaN \<notin> set xs then Inr (Str (Max (set (strs xs))))
      else Inl TypeError)"

text \<open>\<^verbatim>\<open>a != b\<close> on two scalars: \<open>NaN\<close> differs from everything, itself included.\<close>

definition py_ne :: "cell \<Rightarrow> cell \<Rightarrow> bool" where
  "py_ne a b = (a = NaN \<or> b = NaN \<or> a \<noteq> b)"

text \<open>
  Subtraction and division of scalars. A missing operand gives a missing result and a text
  operand raises \<^verbatim>\<open>TypeError\<close>. Floating-point division by zero would give an infinity or
  \<open>NaN\<close> and go unnoticed; the model reports it as \<^verbatim>\<open>ZeroDivisionError\<close>, so that a run
  that divides by zero is told apart from one that does not. On numbers the two operations
  are exact here, where \<^verbatim>\<open>int64\<close> subtraction wraps around and \<^verbatim>\<open>float64\<close> operations
  round: the cells that the scaling branch computes are those of the program only where
  its arithmetic is exact, and no statement below is about their values beyond that.
\<close>

fun cell_sub :: "cell \<Rightarrow> cell \<Rightarrow> error + cell" where
  "cell_sub (Str s) b = Inl TypeError"
| "cell_sub a (Str s) = Inl TypeError"
| "cell_sub (Num a) (Num b) = Inr (Num (a - b))"
| "cell_sub a b = Inr NaN"

fun cell_div :: "cell \<Rightarrow> cell \<Rightarrow> error + cell" where
  "cell_div (Str s) b = Inl TypeError"
| "cell_div a (Str s) = Inl TypeError"
| "cell_div (Num a) (Num b) = (if b = 0 then Inl ZeroDivisionError else Inr (Num (a / b)))"
| "cell_div a b = Inr NaN"

text \<open>An operation applied to every cell of a series; the first exception ends it.\<close>

fun map_err :: "('a \<Rightarrow> error + 'b) \<Rightarrow> 'a list \<Rightarrow> error + 'b list" where
  "map_err f [] = Inr []"
| "map_err f (x # xs) =
     (case f x of
        Inl e \<Rightarrow> Inl e
      | Inr y \<Rightarrow> (case map_err f xs of Inl e \<Rightarrow> Inl e | Inr ys \<Rightarrow> Inr (y # ys)))"

text \<open>
  The body of the loop for a column that is present: the new cells of the column, \<open>n\<close>
  being the number of rows of the frame (the scalar \<open>0.0\<close> is broadcast to every row).
\<close>

definition normalize_series :: "nat \<Rightarrow> cell list \<Rightarrow> error + cell list" where
  "normalize_series n xs =
     bind_err (col_min xs) (\<lambda>min_val.
     bind_err (col_max xs) (\<lambda>max_val.
       if py_ne max_val min_val
       then bind_err (map_err (\<lambda>v. cell_sub v min_val) xs) (\<lambda>shifted.
            bind_err (cell_sub max_val min_val) (\<lambda>span.
            map_err (\<lambda>v. cell_div v span) shifted))
       else Inr (replicate n (Num 0))))"

definition normalize_col :: "table \<Rightarrow> string \<Rightarrow> error + table" where
  "normalize_col df col =
     (if col \<in> set (columns df)
      then bind_err (getitem df col) (\<lambda>s.
           bind_err (normalize_series (nrows df) s) (\<lambda>s'.
           Inr (setitem df col s')))
      else Inr df)"

fun normalize_loop :: "string list \<Rightarrow> table \<Rightarrow> error + table" where
  "normalize_loop [] df = Inr df"
| "normalize_loop (col # rest) df = bind_err (normalize_col df col) (normalize_loop rest)"

section \<open>Step 4: one-hot encoding\<close>

text \<open>
  The levels of a column are its distinct values that are not missing, sorted; values that
  do not compare with each other (texts and numbers) stay in their order of appearance.
\<close>

definition levels :: "cell list \<Rightarrow> cell list" where
  "levels xs =
     (if nums xs = [] then map Str (sort (remdups (strs xs)))
      else if strs xs = [] then map Num (sort (remdups (nums xs)))
      else remdups (filter (\<lambda>v. v \<noteq> NaN) xs))"

definition level_str :: "pandas \<Rightarrow> cell \<Rightarrow> string" where
  "level_str P v = (case v of Str s \<Rightarrow> s | Num q \<Rightarrow> num_str P q | NaN \<Rightarrow> ''nan'')"

text \<open>The indicator columns of one series: one per level, with the integer 1 or 0.\<close>

definition dummy_columns :: "pandas \<Rightarrow> string \<Rightarrow> cell list \<Rightarrow> (string \<times> cell list) list" where
  "dummy_columns P pfx xs =
     map (\<lambda>v. (pfx @ ''_'' @ level_str P v, map (\<lambda>x. if x = v then Num 1 else Num 0) xs))
         (levels xs)"

text \<open>
  \<^verbatim>\<open>pd.get_dummies(df, columns=cs, prefix=pfxs, dtype=int)\<close>. The columns to encode are
  selected with \<^verbatim>\<open>df[cs]\<close>, which raises \<^verbatim>\<open>KeyError\<close> when a label of \<open>cs\<close> is not in
  the frame; there must be as many prefixes as selected columns. The result is the frame
  without the labels of \<open>cs\<close>, followed by the indicator columns of each selected column.
\<close>

definition get_dummies :: "pandas \<Rightarrow> table \<Rightarrow> string list \<Rightarrow> string list \<Rightarrow> error + table" where
  "get_dummies P df cs pfxs =
     (if \<not> list_all (\<lambda>c. c \<in> set (columns df)) cs then Inl KeyError
      else
        let data_to_encode = concat (map (\<lambda>c. filter (\<lambda>p. fst p = c) (cols df)) cs) in
        if length pfxs \<noteq> length data_to_encode then Inl ValueError
        else Inr \<lparr>nrows = nrows df,
                  cols = filter (\<lambda>p. fst p \<notin> set cs) (cols df)
                         @ concat (map (\<lambda>(p, pfx). dummy_columns P pfx (snd p))
                                       (zip data_to_encode pfxs))\<rparr>)"

section \<open>Files and the console\<close>

text \<open>
  The program reads one file, writes one file and prints. The world it runs in is the file
  system (a path names nothing, a directory, or a file with its text) and the lines
  printed so far.
\<close>

datatype entry = File string | Directory

record world =
  fs :: "string \<Rightarrow> entry option"
  stdout :: "string list"

definition py_print :: "world \<Rightarrow> string \<Rightarrow> world" where
  "py_print w line = w\<lparr>stdout := stdout w @ [line]\<rparr>"

fun print_all :: "world \<Rightarrow> string list \<Rightarrow> world" where
  "print_all w [] = w"
| "print_all w (line # rest) = print_all (py_print w line) rest"

text \<open>\<^verbatim>\<open>os.path.exists(path)\<close>.\<close>

definition path_exists :: "world \<Rightarrow> string \<Rightarrow> bool" where
  "path_exists w path = (fs w path \<noteq> None)"

text \<open>
  \<^verbatim>\<open>pd.read_csv(path, sep=';', quotechar='"')\<close>: opening a path that names nothing raises
  \<^verbatim>\<open>FileNotFoundError\<close> (the empty path names nothing), opening a directory raises
  \<^verbatim>\<open>IsADirectoryError\<close>, and the text of a file goes to the parser. Permissions are not
  modelled: every file of the world can be read, and replaced when it is written.
\<close>

definition read_csv :: "pandas \<Rightarrow> world \<Rightarrow> string \<Rightarrow> error + table" where
  "read_csv P w path =
     (if path = [] then Inl FileNotFoundError
      else case fs w path of
        None \<Rightarrow> Inl FileNotFoundError
      | Some Directory \<Rightarrow> Inl IsADirectoryError
      | Some (File txt) \<Rightarrow> read_text P txt)"

text \<open>
  The directory a path lies in: the text before its last slash. A path without a slash
  lies in the working directory and a path whose only slash is the first lies in the
  root; both exist.
\<close>

definition dirname :: "string \<Rightarrow> string" where
  "dirname path = rev (drop 1 (dropWhile (\<lambda>c. c \<noteq> CHR ''/'') (rev path)))"

definition parent_is_dir :: "world \<Rightarrow> string \<Rightarrow> bool" where
  "parent_is_dir w path =
     (if CHR ''/'' \<in> set path \<and> dirname path \<noteq> []
      then fs w (dirname path) = Some Directory
      else True)"

text \<open>
  \<^verbatim>\<open>df.to_csv(path, index=False)\<close>. pandas first checks that the directory of the path
  exists and raises \<^verbatim>\<open>OSError\<close> when it does not; then the file is opened for
  writing, which raises \<^verbatim>\<open>FileNotFoundError\<close> for the empty name and
  \<^verbatim>\<open>IsADirectoryError\<close> for a directory; otherwise the file is created or replaced.
\<close>

definition to_csv :: "pandas \<Rightarrow> world \<Rightarrow> table \<Rightarrow> string \<Rightarrow> error + world" where
  "to_csv P w df path =
     (if \<not> parent_is_dir w path then Inl OSError
      else if path = [] then Inl FileNotFoundError
      else if fs w path = Some Directory then Inl IsADirectoryError
      else Inr (w\<lparr>fs := (fs w)(path \<mapsto> File (to_csv_text P df))\<rparr>))"

text \<open>A natural number in decimal, as an f-string prints \<^verbatim>\<open>len(missing_columns)\<close>.\<close>

definition digit :: "nat \<Rightarrow> char" where
  "digit d = char_of (48 + d)"

function str_nat :: "nat \<Rightarrow> string" where
  "str_nat n = (if n < 10 then [digit n] else str_nat (n div 10) @ [digit (n mod 10)])"
  by pat_completeness auto
termination
  by (relation "measure id") auto

declare str_nat.simps [simp del]

section \<open>Steps 6 to 8: the missing columns, the strict reindex, the output file\<close>

definition present_columns :: "table \<Rightarrow> string set" where
  "present_columns df_renamed = set (columns df_renamed)"

definition missing_columns :: "table \<Rightarrow> string list" where
  "missing_columns df_renamed =
     filter (\<lambda>col. col \<notin> present_columns df_renamed) target_columns"

text \<open>The lines step 6 prints, one element for each call of \<^verbatim>\<open>print\<close>.\<close>

definition missing_report :: "string list \<Rightarrow> string list" where
  "missing_report missing =
     (if missing \<noteq> []
      then [CHR 0x0A # replicate 50 CHR ''='',
            ''WARNING: '' @ str_nat (length missing)
              @ '' columns from the target header are MISSING in the data.'',
            ''These will be automatically created and filled with 0s:'',
            replicate 50 CHR ''-'']
           @ map (\<lambda>col. ''  [MISSING] '' @ col) missing
           @ [replicate 50 CHR ''='' @ [CHR 0x0A]]
      else [CHR 0x0A # ''SUCCESS: All target columns are present in the input data.''
              @ [CHR 0x0A]])"

definition saved_message :: "string \<Rightarrow> string" where
  "saved_message output_filename =
     ''Successfully saved transformed data to '' @ output_filename"

text \<open>
  Steps 6, 7 and 8 and the \<^verbatim>\<open>return\<close>: what the run does with the renamed frame. The
  result is the world it leaves and either the exception raised or the value returned.
\<close>

definition enforce_schema ::
  "pandas \<Rightarrow> world \<Rightarrow> table \<Rightarrow> string \<Rightarrow> world \<times> (error + string option)" where
  "enforce_schema P w df_renamed output_filename =
     (let w1 = print_all w (missing_report (missing_columns df_renamed)) in
      case reindex df_renamed target_columns (Num 0) of
        Inl e \<Rightarrow> (w1, Inl e)
      | Inr df_final \<Rightarrow>
          (case to_csv P w1 df_final output_filename of
             Inl e \<Rightarrow> (w1, Inl e)
           | Inr w2 \<Rightarrow>
               (py_print w2 (saved_message output_filename),
                Inr (Some (join '','' (columns df_final))))))"

section \<open>The pipeline and the entry point\<close>

text \<open>Steps 2 to 5 on the frame that was read: every step that can raise, in order.\<close>

definition transform :: "pandas \<Rightarrow> table \<Rightarrow> error + table" where
  "transform P df =
     bind_err (normalize_loop numeric_cols df) (\<lambda>df.
     bind_err (get_dummies P df categorical_cols categorical_cols) (\<lambda>df_encoded.
     Inr (rename_columns final_col df_encoded)))"

text \<open>The messages of step 2, with the path filled in.\<close>

definition reading_message :: "string \<Rightarrow> string" where
  "reading_message input_path = ''Reading data from: '' @ input_path"

definition not_found_message :: "string \<Rightarrow> string" where
  "not_found_message input_path =
     ''Error: The file '' @ [CHR 0x27] @ input_path @ [CHR 0x27]
       @ '' was not found. Please check the file path.''"

definition process_data ::
  "pandas \<Rightarrow> world \<Rightarrow> string \<Rightarrow> string \<Rightarrow> world \<times> (error + string option)" where
  "process_data P w input_path output_filename =
     (let w1 = py_print w (reading_message input_path) in
      case read_csv P w1 input_path of
        Inl e \<Rightarrow>
          if e = FileNotFoundError
          then (py_print w1 (not_found_message input_path), Inr None)
          else (w1, Inl e)
      | Inr df0 \<Rightarrow>
          (case prepare df0 of
             Inl e \<Rightarrow> (w1, Inl e)
           | Inr df \<Rightarrow>
               let w2 = py_print w1 ''Normalizing numerical columns...'' in
               (case transform P df of
                  Inl e \<Rightarrow> (w2, Inl e)
                | Inr df_renamed \<Rightarrow> enforce_schema P w2 df_renamed output_filename)))"

definition passed_message :: string where
  "passed_message = ''Header verification: PASSED''"

definition failed_message :: string where
  "failed_message = ''Header verification: FAILED (Output does not match target)''"

text \<open>
  The \<^verbatim>\<open>__main__\<close> block. \<^verbatim>\<open>if result_header:\<close> holds for a string that is not empty,
  and neither for \<^verbatim>\<open>None\<close> nor for the empty string.
\<close>

definition main :: "pandas \<Rightarrow> world \<Rightarrow> world \<times> (error + unit)" where
  "main P w =
     (let input_file = ''bank-additional-full.csv'' in
      if path_exists w input_file
      then (case process_data P w input_file ''dataBank_transformed.csv'' of
              (w1, Inl e) \<Rightarrow> (w1, Inl e)
            | (w1, Inr None) \<Rightarrow> (w1, Inr ())
            | (w1, Inr (Some result_header)) \<Rightarrow>
                if result_header \<noteq> []
                then (if result_header = expected_header
                      then (py_print w1 passed_message, Inr ())
                      else (py_print w1 failed_message, Inr ()))
                else (w1, Inr ()))
      else (print_all w [''File not found: '' @ input_file,
              ''Please ensure '' @ [CHR 0x27] @ ''bank-additional-full.csv'' @ [CHR 0x27]
                @ '' is in the current directory.''],
            Inr ()))"

text \<open>A list of printed lines none of which starts with the letter H: no such line is a verdict of the header verification.\<close>

definition quiet :: "string list \<Rightarrow> bool" where
  "quiet ls = (\<forall>l\<in>set ls. l \<noteq> [] \<and> hd l \<noteq> CHR ''H'')"

section \<open>The rename pass as the specification words it\<close>







text \<open>
  An encoded frame as step 4 leaves it when the column \<^verbatim>\<open>default\<close> holds the texts 0 and
  no: the rename pass sends both indicator labels to \<^verbatim>\<open>default=0\<close>.
\<close>

definition clash_encoded :: table where
  "clash_encoded =
     \<lparr>nrows = 2,
      cols = [(''age'', [Num 0, Num 1]),
              (''default_0'', [Num 1, Num 0]),
              (''default_no'', [Num 0, Num 1])]\<rparr>"

text \<open>
  A frame with two constant numeric columns, one of them with a missing cell, and what
  step 3 makes of it.
\<close>

definition flat_table :: table where
  "flat_table =
     \<lparr>nrows = 3,
      cols = [(''age'', [Num 5, Num 5, Num 5]),
              (''duration'', [Num 1, Num 2, Num 3]),
              (''pdays'', [Num 7, NaN, Num 7])]\<rparr>"

definition flat_normalized :: table where
  "flat_normalized =
     \<lparr>nrows = 3,
      cols = [(''age'', [Num 0, Num 0, Num 0]),
              (''duration'', [Num 0, Num (1 / 2), Num 1]),
              (''pdays'', [Num 0, Num 0, Num 0])]\<rparr>"

text \<open>An input frame with one categorical column, \<^verbatim>\<open>job\<close>, and none of the other nine.\<close>

definition partial_table :: table where
  "partial_table =
     \<lparr>nrows = 2,
      cols = [(''age'', [Num 30, Num 60]),
              (''job'', [Str ''admin.'', Str ''student'']),
              (''y'', [Str ''no'', Str ''yes''])]\<rparr>"

text \<open>What stands in the way of writing a file at a path, if anything: the tests of \<open>to_csv\<close>, in its order.\<close>

definition write_status :: "world \<Rightarrow> string \<Rightarrow> error option" where
  "write_status w path =
     (if \<not> parent_is_dir w path then Some OSError
      else if path = [] then Some FileNotFoundError
      else if fs w path = Some Directory then Some IsADirectoryError
      else None)"

text \<open>Steps 2 to 7 on the outcome of the reading: the frame that step 8 is to write.\<close>

definition frame_of :: "pandas \<Rightarrow> error + table \<Rightarrow> error + table" where
  "frame_of P r =
     bind_err r (\<lambda>df0. bind_err (prepare df0) (\<lambda>df. bind_err (transform P df)
       (\<lambda>df_renamed. reindex df_renamed target_columns (Num 0))))"

section \<open>Example inputs\<close>

text \<open>
  A small frame with every categorical column, an instance of the three open operations,
  and a world with one input file and one directory, on which the theorems are run.
\<close>

definition demo_table :: table where
  "demo_table =
     \<lparr>nrows = 2,
      cols = [(''age'', [Num 30, Num 60]), (''job'', [Str ''admin.'', Str ''student'']),
              (''marital'', [Str ''single'', Str ''single'']), (''education'', [Str ''unknown'', Str ''unknown'']),
              (''default'', [Str ''no'', Str ''yes'']), (''housing'', [Str ''yes'', Str ''no'']),
              (''loan'', [Str ''no'', Str ''unknown'']), (''contact'', [Str ''cellular'', Str ''telephone'']),
              (''month'', [Str ''may'', Str ''jun'']), (''day_of_week'', [Str ''mon'', Str ''tue'']),
              (''poutcome'', [Str ''failure'', NaN]), (''y'', [Str ''yes'', Str ''no''])]\<rparr>"

definition demo_pandas :: pandas where
  "demo_pandas =
     \<lparr>read_text = (\<lambda>txt. if txt = ''demo'' then Inr demo_table else Inl ParserError),
      to_csv_text = (\<lambda>df. join '','' (columns df)),
      num_str = (\<lambda>q. ''0'')\<rparr>"

definition demo_world :: world where
  "demo_world =
     \<lparr>fs = (\<lambda>p. if p = ''bank-additional-full.csv'' then Some (File ''demo'')
                 else if p = ''data'' then Some Directory else None),
      stdout = []\<rparr>"

definition other_world :: world where
  "other_world =
     \<lparr>fs = (\<lambda>p. if p = ''bank-additional-full.csv'' then Some (File ''demo'')
                 else if p = ''notes.txt'' then Some (File ''kept'')
                 else if p = ''dataBank_transformed.csv'' then Some (File ''old output'')
                 else None),
      stdout = [''an earlier line'']\<rparr>"

definition small_table :: table where
  "small_table = \<lparr>nrows = 2, cols = [(''age'', [Num 0, Num 1]), (''other'', [Str ''a'', Str ''b''])]\<rparr>"

section \<open>Facts about the configuration and the frame operations\<close>

lemma length_target_columns: "length target_columns = 63"
  by (simp add: target_columns_def)

lemma distinct_target_columns: "distinct target_columns"
  by code_simp

lemma join_target_columns: "join '','' target_columns = expected_header"
  by code_simp

lemma columns_reindex: "reindex df cs v = Inr out \<Longrightarrow> columns out = cs \<and> nrows out = nrows df"
  by (auto simp: reindex_def columns_def comp_def split: if_splits)

lemma getitem_distinct:
  "distinct (map fst kvs) \<Longrightarrow> (c, xs) \<in> set kvs \<Longrightarrow> map snd (filter (\<lambda>p. fst p = c) kvs) = [xs]"
  by (induction kvs) (auto simp: filter_empty_conv image_iff)

lemma getitem_absent: "c \<notin> set (columns df) \<Longrightarrow> getitem df c = Inl KeyError"
proof -
  assume "c \<notin> set (columns df)"
  then have "filter (\<lambda>p. fst p = c) (cols df) = []"
    by (auto simp: filter_empty_conv columns_def)
  then show ?thesis by (simp add: getitem_def)
qed

lemma getitem_reindex:
  assumes "reindex df cs v = Inr out" "distinct cs" "c \<in> set cs"
  shows "getitem out c = Inr (case map_of (cols df) c of Some xs \<Rightarrow> xs | None \<Rightarrow> replicate (nrows df) v)"
proof -
  let ?f = "\<lambda>c. (c, case map_of (cols df) c of Some xs \<Rightarrow> xs | None \<Rightarrow> replicate (nrows df) v)"
  from assms(1) have c: "cols out = map ?f cs"
    by (auto simp: reindex_def split: if_splits)
  have "distinct (map fst (cols out))" using assms(2) by (simp add: c comp_def)
  moreover have "?f c \<in> set (cols out)" using assms(3) by (simp add: c)
  ultimately have "map snd (filter (\<lambda>p. fst p = c) (cols out)) = [snd (?f c)]"
    using getitem_distinct[of "cols out" c "snd (?f c)"] by simp
  then show ?thesis by (simp add: getitem_def)
qed

lemma getitem_map_of:
  "distinct (columns df) \<Longrightarrow> c \<in> set (columns df) \<Longrightarrow> \<exists>xs. map_of (cols df) c = Some xs \<and> getitem df c = Inr xs"
proof -
  assume d: "distinct (columns df)" and c: "c \<in> set (columns df)"
  from c have "map_of (cols df) c \<noteq> None"
    by (simp add: map_of_eq_None_iff columns_def)
  then obtain xs where m: "map_of (cols df) c = Some xs"
    by auto
  then have "(c, xs) \<in> set (cols df)" by (rule map_of_SomeD)
  with d have "map snd (filter (\<lambda>p. fst p = c) (cols df)) = [xs]"
    by (simp add: getitem_distinct columns_def)
  with m show ?thesis by (simp add: getitem_def)
qed

lemma stdout_print_all: "stdout (print_all w ls) = stdout w @ ls"
  by (induction ls arbitrary: w) (auto simp: py_print_def)

lemma fs_print_all: "fs (print_all w ls) = fs w"
  by (induction ls arbitrary: w) (auto simp: py_print_def)

lemma enforce_schema_Inr:
  assumes "snd (enforce_schema P w df out) = Inr r"
  shows "\<exists>df_final. reindex df target_columns (Num 0) = Inr df_final
           \<and> fs (fst (enforce_schema P w df out)) out = Some (File (to_csv_text P df_final))
           \<and> r = Some (join '','' (columns df_final))"
  using assms
  by (auto simp: enforce_schema_def Let_def to_csv_def py_print_def fs_print_all
           split: sum.splits if_splits)

lemma small_run: "snd (enforce_schema demo_pandas demo_world small_table ''out.csv'')
     = Inr (Some expected_header)"
proof -
  have "distinct (columns small_table)" by (simp add: small_table_def columns_def)
  then show ?thesis
  by (simp add: enforce_schema_def Let_def reindex_def columns_def to_csv_def
        parent_is_dir_def demo_world_def demo_pandas_def fs_print_all comp_def
        join_target_columns)
qed

lemma process_data_header:
  assumes "snd (process_data P w input_path output_filename) = Inr (Some header)"
  shows "header = expected_header"
proof -
  from assms obtain w2 df where
    e: "snd (enforce_schema P w2 df output_filename) = Inr (Some header)"
    by (auto simp: process_data_def Let_def split: sum.splits if_splits)
  from enforce_schema_Inr[OF e] obtain df_final where
    "reindex df target_columns (Num 0) = Inr df_final"
    "Some header = Some (join '','' (columns df_final))" by blast
  then show ?thesis
    using columns_reindex[of df target_columns "Num 0" df_final]
    by (simp add: join_target_columns)
qed

lemma missing_report_hd: "l \<in> set (missing_report m) \<Longrightarrow> l \<noteq> [] \<and> hd l \<noteq> CHR ''H''"
  by (auto simp: missing_report_def split: if_splits)

lemma quiet_simps:
  "quiet []" "quiet (l # ls) = (l \<noteq> [] \<and> hd l \<noteq> CHR ''H'' \<and> quiet ls)"
  "quiet (xs @ ys) = (quiet xs \<and> quiet ys)"
  by (auto simp: quiet_def)

lemma quiet_messages:
  "quiet (missing_report m)" "quiet [reading_message p]" "quiet [not_found_message p]"
  "quiet [saved_message p]" "quiet [''Normalizing numerical columns...'']"
  using missing_report_hd
  by (auto simp: quiet_def reading_message_def not_found_message_def saved_message_def)

lemma enforce_schema_stdout:
  "\<exists>ls. stdout (fst (enforce_schema P w df out)) = stdout w @ ls \<and> quiet ls"
proof (cases "reindex df target_columns (Num 0)")
  case (Inl e)
  then have "stdout (fst (enforce_schema P w df out)) = stdout w @ missing_report (missing_columns df)"
    by (simp add: enforce_schema_def Let_def stdout_print_all)
  then show ?thesis using quiet_messages(1) by blast
next
  case (Inr df_final)
  show ?thesis
  proof (cases "to_csv P (print_all w (missing_report (missing_columns df))) df_final out")
    case (Inl e)
    then have "stdout (fst (enforce_schema P w df out)) = stdout w @ missing_report (missing_columns df)"
      by (simp add: enforce_schema_def Let_def stdout_print_all Inr)
    then show ?thesis using quiet_messages(1) by blast
  next
    case (Inr w2)
    then have "stdout w2 = stdout w @ missing_report (missing_columns df)"
      by (auto simp: to_csv_def stdout_print_all split: if_splits)
    then have "stdout (fst (enforce_schema P w df out)) =
       stdout w @ (missing_report (missing_columns df) @ [saved_message out])"
      using Inr \<open>reindex df target_columns (Num 0) = Inr df_final\<close>
      by (simp add: enforce_schema_def Let_def py_print_def)
    moreover have "quiet (missing_report (missing_columns df) @ [saved_message out])"
      by (simp add: quiet_simps(3) quiet_messages)
    ultimately show ?thesis by blast
  qed
qed

lemma process_data_stdout:
  "\<exists>ls. stdout (fst (process_data P w input_path out)) = stdout w @ ls \<and> quiet ls"
proof -
  let ?w1 = "py_print w (reading_message input_path)"
  let ?w2 = "py_print ?w1 ''Normalizing numerical columns...''"
  have w1: "stdout ?w1 = stdout w @ [reading_message input_path]"
    by (simp add: py_print_def)
  have w2: "stdout ?w2 = stdout w @ [reading_message input_path, ''Normalizing numerical columns...'']"
    by (simp add: py_print_def)
  have q1: "quiet [reading_message input_path]" by (rule quiet_messages)
  have q2: "quiet [reading_message input_path, ''Normalizing numerical columns...'']"
    using quiet_messages(2,5) by (simp add: quiet_simps)
  show ?thesis
  proof (cases "read_csv P ?w1 input_path")
    case (Inl e)
    show ?thesis
    proof (cases "e = FileNotFoundError")
      case True
      then have "stdout (fst (process_data P w input_path out)) =
         stdout w @ [reading_message input_path, not_found_message input_path]"
        using Inl by (simp add: process_data_def Let_def py_print_def)
      moreover have "quiet [reading_message input_path, not_found_message input_path]"
        using quiet_messages(2,3) by (simp add: quiet_simps)
      ultimately show ?thesis by blast
    next
      case False
      then have "fst (process_data P w input_path out) = ?w1"
        using Inl by (simp add: process_data_def Let_def)
      then show ?thesis using w1 q1 by metis
    qed
  next
    case (Inr df0)
    show ?thesis
    proof (cases "prepare df0")
      case (Inl e)
      then have "fst (process_data P w input_path out) = ?w1"
        using Inr by (simp add: process_data_def Let_def)
      then show ?thesis using w1 q1 by metis
    next
      case pr: (Inr df)
      show ?thesis
      proof (cases "transform P df")
        case (Inl e)
        then have "fst (process_data P w input_path out) = ?w2"
          using Inr pr by (simp add: process_data_def Let_def)
        then show ?thesis using w2 q2 by metis
      next
        case tr: (Inr df_renamed)
        then have p: "process_data P w input_path out = enforce_schema P ?w2 df_renamed out"
          using Inr pr by (simp add: process_data_def Let_def)
        from enforce_schema_stdout[of P ?w2 df_renamed out] obtain ls where
          ls: "stdout (fst (enforce_schema P ?w2 df_renamed out)) = stdout ?w2 @ ls" "quiet ls"
          by blast
        have "stdout (fst (process_data P w input_path out)) =
           stdout w @ ([reading_message input_path, ''Normalizing numerical columns...''] @ ls)"
          using p ls(1) w2 by simp
        moreover have "quiet ([reading_message input_path, ''Normalizing numerical columns...''] @ ls)"
          using q2 ls(2) by (simp only: quiet_simps(3))
        ultimately show ?thesis by blast
      qed
    qed
  qed
qed

lemma demo_run:
  "snd (process_data demo_pandas demo_world ''bank-additional-full.csv'' ''dataBank_transformed.csv'')
     = Inr (Some expected_header)"
  by code_simp

lemma commas_expected_header: "count_list expected_header CHR '','' = 62"
  by code_simp

lemma quiet_not_failed: "quiet ls \<Longrightarrow> failed_message \<notin> set ls"
  by (auto simp: quiet_def failed_message_def)

lemma main_stdout:
  "\<exists>ls. stdout (fst (main P w)) = stdout w @ ls \<and> failed_message \<notin> set ls"
proof (cases "path_exists w ''bank-additional-full.csv''")
  case False
  then have "stdout (fst (main P w)) = stdout w @
      [''File not found: '' @ ''bank-additional-full.csv'',
       ''Please ensure '' @ [CHR 0x27] @ ''bank-additional-full.csv'' @ [CHR 0x27]
                @ '' is in the current directory.'']"
    by (simp add: main_def Let_def py_print_def)
  moreover have "failed_message \<notin> set [''File not found: '' @ ''bank-additional-full.csv'',
       ''Please ensure '' @ [CHR 0x27] @ ''bank-additional-full.csv'' @ [CHR 0x27]
                @ '' is in the current directory.'']"
    by (simp add: failed_message_def)
  ultimately show ?thesis by blast
next
  case True
  let ?r = "process_data P w ''bank-additional-full.csv'' ''dataBank_transformed.csv''"
  from process_data_stdout[of P w "''bank-additional-full.csv''" "''dataBank_transformed.csv''"]
  obtain ls where ls: "stdout (fst ?r) = stdout w @ ls" "quiet ls" by blast
  have nf: "failed_message \<notin> set ls" using ls(2) by (rule quiet_not_failed)
  show ?thesis
  proof (cases "snd ?r")
    case (Inl e)
    then have "fst (main P w) = fst ?r"
      using True by (auto simp: main_def Let_def split: prod.splits)
    then show ?thesis using ls(1) nf by metis
  next
    case (Inr res)
    show ?thesis
    proof (cases res)
      case None
      then have "fst (main P w) = fst ?r"
        using True Inr by (auto simp: main_def Let_def split: prod.splits)
      then show ?thesis using ls(1) nf by metis
    next
      case (Some h)
      then have h: "h = expected_header" using Inr process_data_header by blast
      have "expected_header \<noteq> []" by (simp add: expected_header_def)
      then have "fst (main P w) = py_print (fst ?r) passed_message"
        using True Inr Some h by (auto simp: main_def Let_def split: prod.splits)
      then have "stdout (fst (main P w)) = stdout w @ (ls @ [passed_message])"
        using ls(1) by (simp add: py_print_def)
      moreover have "failed_message \<notin> set (ls @ [passed_message])"
        using nf by (simp add: failed_message_def passed_message_def)
      ultimately show ?thesis by blast
    qed
  qed
qed

lemma enforce_schema_stdout_eq:
  "\<exists>rest. stdout (fst (enforce_schema P w df out))
      = stdout w @ missing_report (missing_columns df) @ rest"
proof (cases "reindex df target_columns (Num 0)")
  case (Inl e)
  then have "stdout (fst (enforce_schema P w df out))
      = stdout w @ missing_report (missing_columns df) @ []"
    by (simp add: enforce_schema_def Let_def stdout_print_all)
  then show ?thesis by blast
next
  case (Inr df_final)
  show ?thesis
  proof (cases "to_csv P (print_all w (missing_report (missing_columns df))) df_final out")
    case (Inl e)
    then have "stdout (fst (enforce_schema P w df out))
        = stdout w @ missing_report (missing_columns df) @ []"
      by (simp add: enforce_schema_def Let_def stdout_print_all Inr)
    then show ?thesis by blast
  next
    case w2: (Inr w2)
    then have "stdout w2 = stdout w @ missing_report (missing_columns df)"
      by (auto simp: to_csv_def stdout_print_all split: if_splits)
    then have "stdout (fst (enforce_schema P w df out)) =
       stdout w @ missing_report (missing_columns df) @ [saved_message out]"
      using w2 Inr by (simp add: enforce_schema_def Let_def py_print_def)
    then show ?thesis by blast
  qed
qed

lemma missing_lines_in_report:
  "sublist (map (\<lambda>col. ''  [MISSING] '' @ col) m) (missing_report m)"
proof (cases "m = []")
  case True
  then show ?thesis by simp
next
  case False
  then have "missing_report m =
      [CHR 0x0A # replicate 50 CHR ''='',
       ''WARNING: '' @ str_nat (length m)
              @ '' columns from the target header are MISSING in the data.'',
       ''These will be automatically created and filled with 0s:'',
       replicate 50 CHR ''-'']
      @ map (\<lambda>col. ''  [MISSING] '' @ col) m
      @ [replicate 50 CHR ''='' @ [CHR 0x0A]]"
    by (simp add: missing_report_def)
  then show ?thesis
    unfolding sublist_def by blast
qed

lemma filter_class_renamed:
  "filter (\<lambda>p. fst p = ''class'') (map (\<lambda>p. (rename_y (fst p), snd p)) kvs)
     = map (\<lambda>p. (''class'', snd p)) (filter (\<lambda>p. fst p = ''y'' \<or> fst p = ''class'') kvs)"
  by (induction kvs) (auto simp: rename_y_def)

lemma class_in_renamed_list:
  "(''class'' \<in> set (map fst (map (\<lambda>p. (rename_y (fst p), snd p)) kvs)))
     = (filter (\<lambda>p. fst p = ''y'' \<or> fst p = ''class'') kvs \<noteq> [])"
  by (induction kvs) (auto simp: rename_y_def)

lemma class_in_renamed:
  "(''class'' \<in> set (columns (rename_columns rename_y df0)))
     = (filter (\<lambda>p. fst p = ''y'' \<or> fst p = ''class'') (cols df0) \<noteq> [])"
  using class_in_renamed_list[of "cols df0"]
  by (simp add: columns_def rename_columns_def)










lemma prepare_cases:
  "prepare df0 =
     (if length (filter (\<lambda>c. c = ''y'' \<or> c = ''class'') (columns df0)) \<le> 1
      then Inr (df0\<lparr>cols := map (\<lambda>p. if fst p = ''y'' \<or> fst p = ''class''
                                    then (''class'', map class_map (snd p)) else p)
                              (cols df0)\<rparr>)
      else if nrows df0 = 0 then Inr (rename_columns rename_y df0)
      else Inl TypeError)"
proof -
  let ?yc = "\<lambda>p::string \<times> cell list. fst p = ''y'' \<or> fst p = ''class''"
  let ?df = "rename_columns rename_y df0"
  let ?new = "map (\<lambda>p. if ?yc p then (''class'', map class_map (snd p)) else p) (cols df0)"
  have len: "length (filter (\<lambda>c. c = ''y'' \<or> c = ''class'') (columns df0))
      = length (filter ?yc (cols df0))"
    by (simp add: columns_def filter_map comp_def)
  have sel: "map snd (filter (\<lambda>p. fst p = ''class'') (cols ?df)) = map snd (filter ?yc (cols df0))"
    by (simp add: rename_columns_def filter_class_renamed comp_def)
  have n: "nrows ?df = nrows df0" by (simp add: rename_columns_def)
  show ?thesis
  proof (cases "filter ?yc (cols df0)")
    case Nil
    then have no: "\<forall>p\<in>set (cols df0). \<not> ?yc p"
      by (simp add: filter_empty_conv)
    then have "map (\<lambda>p. (rename_y (fst p), snd p)) (cols df0) = ?new"
      by (intro map_cong) (auto simp: rename_y_def)
    then have "?df = df0\<lparr>cols := ?new\<rparr>"
      by (simp add: rename_columns_def)
    moreover have "''class'' \<notin> set (columns ?df)"
      using Nil by (simp add: class_in_renamed)
    ultimately show ?thesis
      using Nil len by (simp add: prepare_def Let_def)
  next
    case (Cons p ps)
    then have inn: "''class'' \<in> set (columns ?df)"
      by (simp add: class_in_renamed)
    show ?thesis
    proof (cases ps)
      case Nil
      with Cons have one: "filter ?yc (cols df0) = [p]" by simp
      have eqp: "q = p" if "q \<in> set (cols df0)" "?yc q" for q
      proof -
        from that have "q \<in> set (filter ?yc (cols df0))" by simp
        then show ?thesis by (simp add: one)
      qed
      have "map (\<lambda>q. if fst q = ''class'' then (''class'', map class_map (snd p)) else q)
              (map (\<lambda>p. (rename_y (fst p), snd p)) (cols df0)) = ?new"
        unfolding map_map comp_def
        by (intro map_cong) (auto simp: rename_y_def dest: eqp)
      then have "setitem ?df ''class'' (map class_map (snd p)) = df0\<lparr>cols := ?new\<rparr>"
        using inn by (simp add: setitem_def rename_columns_def)
      then show ?thesis
        using inn one len sel by (simp add: prepare_def Let_def)
    next
      case (Cons q qs)
      then have two: "filter ?yc (cols df0) = p # q # qs"
        using \<open>filter ?yc (cols df0) = p # ps\<close> by simp
      then show ?thesis
        using inn len sel n by (simp add: prepare_def Let_def)
    qed
  qed
qed

lemma clash_renamed:
  "rename_columns final_col clash_encoded =
     \<lparr>nrows = 2,
      cols = [(''age'', [Num 0, Num 1]),
              (''default=0'', [Num 1, Num 0]),
              (''default=0'', [Num 0, Num 1])]\<rparr>"
proof -
  have "final_col ''age'' = ''age''" "final_col ''default_0'' = ''default=0''"
    "final_col ''default_no'' = ''default=0''"
    by code_simp+
  then show ?thesis by (simp add: rename_columns_def clash_encoded_def)
qed

lemma clash_raises:
  "snd (enforce_schema P w (rename_columns final_col clash_encoded) out) = Inl ValueError
   \<and> fs (fst (enforce_schema P w (rename_columns final_col clash_encoded) out)) = fs w"
  by (simp add: clash_renamed enforce_schema_def Let_def reindex_def columns_def fs_print_all)

lemma to_csv_fs_only:
  "fs w1 = fs w \<Longrightarrow>
     (case to_csv P w1 df out of Inl e \<Rightarrow> Inl e | Inr w2 \<Rightarrow> Inr ())
       = (case to_csv P w df out of Inl e \<Rightarrow> Inl e | Inr w2 \<Rightarrow> Inr ())"
  by (simp add: to_csv_def parent_is_dir_def)

lemma enforce_schema_outcome:
  "snd (enforce_schema P w df out) =
     (case reindex df target_columns (Num 0) of
        Inl e \<Rightarrow> Inl e
      | Inr df_final \<Rightarrow>
          (case to_csv P w df_final out of
             Inl e \<Rightarrow> Inl e
           | Inr w2 \<Rightarrow> Inr (Some (join '','' (columns df_final)))))"
proof (cases "reindex df target_columns (Num 0)")
  case (Inl e)
  then show ?thesis by (simp add: enforce_schema_def Let_def)
next
  case (Inr df_final)
  let ?w1 = "print_all w (missing_report (missing_columns df))"
  have "fs ?w1 = fs w" by (rule fs_print_all)
  from to_csv_fs_only[OF this, of P df_final out] show ?thesis
    using Inr by (auto simp: enforce_schema_def Let_def split: sum.splits)
qed

















lemma filter_setitem_list:
  "map snd (filter (\<lambda>p. fst p = c') (map (\<lambda>p. if fst p = c then (c, xs) else p) kvs))
     = (if c' = c then map (\<lambda>p. xs) (filter (\<lambda>p. fst p = c) kvs)
        else map snd (filter (\<lambda>p. fst p = c') kvs))"
  by (induction kvs) auto

lemma getitem_in_columns: "getitem df c = Inr xs \<Longrightarrow> c \<in> set (columns df)"
  using getitem_absent[of c df] by auto

lemma setitem_frame:
  "c \<in> set (columns df) \<Longrightarrow>
     columns (setitem df c xs) = columns df \<and> nrows (setitem df c xs) = nrows df"
  by (auto simp: setitem_def columns_def comp_def intro!: map_cong)

lemma getitem_setitem_other:
  "c \<in> set (columns df) \<Longrightarrow> c' \<noteq> c \<Longrightarrow> getitem (setitem df c xs) c' = getitem df c'"
  by (simp add: setitem_def getitem_def filter_setitem_list)

lemma getitem_setitem_same:
  assumes "getitem df c = Inr old"
  shows "getitem (setitem df c xs) c = Inr xs"
proof -
  from assms have i: "c \<in> set (columns df)" by (rule getitem_in_columns)
  from assms obtain p where "map snd (filter (\<lambda>p. fst p = c) (cols df)) = [p]"
    by (auto simp: getitem_def split: list.splits)
  from arg_cong[OF this, of length] have "length (filter (\<lambda>p. fst p = c) (cols df)) = 1"
    by simp
  then obtain q where "filter (\<lambda>p. fst p = c) (cols df) = [q]"
    by (auto simp: length_Suc_conv)
  then show ?thesis
    using i by (simp add: setitem_def getitem_def filter_setitem_list)
qed

lemma normalize_col_frame:
  assumes "normalize_col df c = Inr df'"
  shows "nrows df' = nrows df" "columns df' = columns df"
    "c' \<noteq> c \<Longrightarrow> getitem df' c' = getitem df c'"
  using assms
  by (auto simp: normalize_col_def bind_err_def setitem_frame getitem_setitem_other
           split: if_splits sum.splits)

lemma normalize_col_same:
  assumes "normalize_col df c = Inr df'" "getitem df c = Inr xs"
  shows "\<exists>ys. normalize_series (nrows df) xs = Inr ys \<and> getitem df' c = Inr ys"
  using assms getitem_in_columns[OF assms(2)]
  by (auto simp: normalize_col_def bind_err_def getitem_setitem_same split: sum.splits)

lemma normalize_loop_other:
  "normalize_loop cs df = Inr df' \<Longrightarrow> c \<notin> set cs \<Longrightarrow>
     getitem df' c = getitem df c \<and> nrows df' = nrows df"
proof (induction cs arbitrary: df)
  case Nil
  then show ?case by simp
next
  case (Cons a cs)
  from Cons.prems(1) obtain df1 where
    s: "normalize_col df a = Inr df1" "normalize_loop cs df1 = Inr df'"
    by (auto simp: bind_err_def split: sum.splits)
  from Cons.prems(2) have "c \<noteq> a" "c \<notin> set cs" by auto
  with Cons.IH[OF s(2)] normalize_col_frame[OF s(1)] show ?case by simp
qed

lemma normalize_loop_same:
  "normalize_loop cs df = Inr df' \<Longrightarrow> distinct cs \<Longrightarrow> c \<in> set cs \<Longrightarrow>
   getitem df c = Inr xs \<Longrightarrow>
     \<exists>ys. normalize_series (nrows df) xs = Inr ys \<and> getitem df' c = Inr ys"
proof (induction cs arbitrary: df)
  case Nil
  then show ?case by simp
next
  case (Cons a cs)
  from Cons.prems(1) obtain df1 where
    s: "normalize_col df a = Inr df1" "normalize_loop cs df1 = Inr df'"
    by (auto simp: bind_err_def split: sum.splits)
  show ?case
  proof (cases "c = a")
    case True
    with Cons.prems(2) have "c \<notin> set cs" by simp
    from normalize_loop_other[OF s(2) this] have "getitem df' c = getitem df1 c" by simp
    moreover from normalize_col_same[OF s(1)] Cons.prems(4) True obtain ys where
      "normalize_series (nrows df) xs = Inr ys" "getitem df1 c = Inr ys" by blast
    ultimately show ?thesis by simp
  next
    case False
    with Cons.prems(3) have "c \<in> set cs" by simp
    moreover from normalize_col_frame[OF s(1)] False Cons.prems(4)
    have "getitem df1 c = Inr xs" "nrows df1 = nrows df" by simp_all
    ultimately show ?thesis
      using Cons.IH[OF s(2)] Cons.prems(2) by simp
  qed
qed

lemma distinct_numeric_cols: "distinct numeric_cols"
  by (simp add: numeric_cols_def)

lemma normalize_series_constant:
  "col_min xs = Inr min_val \<Longrightarrow> col_max xs = Inr max_val \<Longrightarrow> \<not> py_ne max_val min_val
     \<Longrightarrow> normalize_series n xs = Inr (replicate n (Num 0))"
  by (simp add: normalize_series_def bind_err_def)

lemma flat_run: "normalize_loop numeric_cols flat_table = Inr flat_normalized"
  by code_simp

lemma read_csv_print: "read_csv P (py_print w l) path = read_csv P w path"
  by (simp add: read_csv_def py_print_def)

lemma enforce_schema_fs_Inl:
  "snd (enforce_schema P w df out) = Inl e \<Longrightarrow> fs (fst (enforce_schema P w df out)) = fs w"
  by (auto simp: enforce_schema_def Let_def fs_print_all split: sum.splits)


lemma to_csv_status:
  "to_csv P w df path =
     (case write_status w path of
        Some e \<Rightarrow> Inl e
      | None \<Rightarrow> Inr (w\<lparr>fs := (fs w)(path \<mapsto> File (to_csv_text P df))\<rparr>))"
  by (simp add: to_csv_def write_status_def)

lemma write_status_print: "write_status (py_print w l) path = write_status w path"
  by (simp add: write_status_def parent_is_dir_def py_print_def)

lemma write_status_print_all: "write_status (print_all w ls) path = write_status w path"
  by (induction ls arbitrary: w) (simp_all add: write_status_print)

lemma enforce_schema_result:
  "snd (enforce_schema P w df out) =
     (case reindex df target_columns (Num 0) of
        Inl e \<Rightarrow> Inl e
      | Inr df_final \<Rightarrow>
          (case write_status w out of
             Some e \<Rightarrow> Inl e
           | None \<Rightarrow> Inr (Some (join '','' (columns df_final)))))"
  by (simp add: enforce_schema_def Let_def to_csv_status write_status_print_all
           split: sum.splits option.splits)

lemma enforce_schema_fs:
  "fs (fst (enforce_schema P w df out)) =
     (case reindex df target_columns (Num 0) of
        Inl e \<Rightarrow> fs w
      | Inr df_final \<Rightarrow>
          (case write_status w out of
             Some e \<Rightarrow> fs w
           | None \<Rightarrow> (fs w)(out \<mapsto> File (to_csv_text P df_final))))"
  by (simp add: enforce_schema_def Let_def to_csv_status write_status_print_all fs_print_all
           py_print_def split: sum.splits option.splits)

lemma process_data_result:
  "snd (process_data P w input_path out) =
     (case read_csv P w input_path of
        Inl e \<Rightarrow> if e = FileNotFoundError then Inr None else Inl e
      | Inr df0 \<Rightarrow>
          (case frame_of P (Inr df0) of
             Inl e \<Rightarrow> Inl e
           | Inr df_final \<Rightarrow>
               (case write_status w out of
                  Some e \<Rightarrow> Inl e
                | None \<Rightarrow> Inr (Some (join '','' (columns df_final))))))"
  by (simp add: process_data_def Let_def read_csv_print enforce_schema_result
        write_status_print frame_of_def bind_err_def split: sum.splits option.splits)

lemma fs_py_print: "fs (py_print w l) = fs w"
  by (simp add: py_print_def)

lemma process_data_fs:
  "fs (fst (process_data P w input_path out)) =
     (case frame_of P (read_csv P w input_path) of
        Inl e \<Rightarrow> fs w
      | Inr df_final \<Rightarrow>
          (case write_status w out of
             Some e \<Rightarrow> fs w
           | None \<Rightarrow> (fs w)(out \<mapsto> File (to_csv_text P df_final))))"
  by (simp add: process_data_def Let_def read_csv_print enforce_schema_fs
        write_status_print frame_of_def bind_err_def fs_py_print
        split: sum.splits option.splits)

lemma read_csv_same: "fs w1 path = fs w2 path \<Longrightarrow> read_csv P w1 path = read_csv P w2 path"
  by (simp add: read_csv_def)

lemma write_status_same:
  "parent_is_dir w1 out = parent_is_dir w2 out \<Longrightarrow>
   (fs w1 out = Some Directory) = (fs w2 out = Some Directory) \<Longrightarrow>
     write_status w1 out = write_status w2 out"
  by (simp add: write_status_def)

lemma process_data_header_file:
  assumes "snd (process_data P w input_path out) = Inr (Some header)"
  shows "\<exists>df_final. frame_of P (read_csv P w input_path) = Inr df_final
           \<and> write_status w out = None
           \<and> fs (fst (process_data P w input_path out))
               = (fs w)(out \<mapsto> File (to_csv_text P df_final))"
proof -
  from assms obtain df0 where r: "read_csv P w input_path = Inr df0"
    by (auto simp: process_data_result split: sum.splits if_splits)
  with assms obtain df_final where f: "frame_of P (Inr df0) = Inr df_final"
    by (auto simp: process_data_result split: sum.splits)
  with assms r have s: "write_status w out = None"
    by (auto simp: process_data_result split: option.splits)
  from r f s show ?thesis by (simp add: process_data_fs)
qed

lemma process_data_two_worlds:
  assumes "fs w1 input_path = fs w2 input_path" "write_status w1 out = write_status w2 out"
  shows "snd (process_data P w1 input_path out) = snd (process_data P w2 input_path out)"
    and "snd (process_data P w1 input_path out) = Inr (Some header) \<Longrightarrow>
         fs (fst (process_data P w1 input_path out)) out
           = fs (fst (process_data P w2 input_path out)) out
         \<and> (\<exists>df_final. fs (fst (process_data P w1 input_path out)) out
                = Some (File (to_csv_text P df_final)))"
proof -
  note rd = read_csv_same[OF assms(1), of P]
  show eq: "snd (process_data P w1 input_path out) = snd (process_data P w2 input_path out)"
    by (simp only: process_data_result rd assms(2))
  assume h: "snd (process_data P w1 input_path out) = Inr (Some header)"
  from process_data_header_file[OF h] obtain d1 where
    a: "frame_of P (read_csv P w1 input_path) = Inr d1"
       "fs (fst (process_data P w1 input_path out)) = (fs w1)(out \<mapsto> File (to_csv_text P d1))"
    by blast
  from h eq have "snd (process_data P w2 input_path out) = Inr (Some header)" by simp
  from process_data_header_file[OF this] obtain d2 where
    b: "frame_of P (read_csv P w2 input_path) = Inr d2"
       "fs (fst (process_data P w2 input_path out)) = (fs w2)(out \<mapsto> File (to_csv_text P d2))"
    by blast
  from a(1) b(1) rd have "d1 = d2" by simp
  with a(2) b(2) have "fs (fst (process_data P w1 input_path out)) out
           = fs (fst (process_data P w2 input_path out)) out" by simp
  moreover from a(2) have "fs (fst (process_data P w1 input_path out)) out
                = Some (File (to_csv_text P d1))" by simp
  ultimately show "fs (fst (process_data P w1 input_path out)) out
           = fs (fst (process_data P w2 input_path out)) out
         \<and> (\<exists>df_final. fs (fst (process_data P w1 input_path out)) out
                = Some (File (to_csv_text P df_final)))" by blast
qed

lemma dirname_shorter:
  assumes "CHR ''/'' \<in> set path"
  shows "length (dirname path) < length path"
proof -
  let ?xs = "dropWhile (\<lambda>c. c \<noteq> CHR ''/'') (rev path)"
  from assms have "?xs \<noteq> []"
    by (auto simp: dropWhile_eq_Nil_conv)
  then have "length (drop 1 ?xs) < length ?xs" by (cases ?xs) simp_all
  also have "length ?xs \<le> length (rev path)" by (rule length_dropWhile_le)
  finally show ?thesis by (simp add: dirname_def)
qed

lemma write_status_after_write:
  assumes "write_status w out = None"
  shows "write_status (w'\<lparr>fs := (fs w)(out \<mapsto> File t)\<rparr>) out = None"
proof -
  from assms have p: "parent_is_dir w out" and n: "out \<noteq> []"
    by (auto simp: write_status_def split: if_splits)
  have "parent_is_dir (w'\<lparr>fs := (fs w)(out \<mapsto> File t)\<rparr>) out"
  proof (cases "CHR ''/'' \<in> set out \<and> dirname out \<noteq> []")
    case True
    then have "dirname out \<noteq> out" using dirname_shorter[of out] by auto
    with p True show ?thesis by (simp add: parent_is_dir_def)
  next
    case False
    then show ?thesis by (auto simp: parent_is_dir_def)
  qed
  with n show ?thesis by (simp add: write_status_def)
qed

lemma process_data_fs_cases:
  "fs (fst (process_data P w input_path out)) = fs w
      \<or> (\<exists>t. fs (fst (process_data P w input_path out)) = (fs w)(out \<mapsto> File t)
              \<and> write_status w out = None)"
  by (auto simp: process_data_fs split: sum.splits option.splits)

lemma process_data_keeps_input:
  assumes "input_path \<noteq> out"
  shows "fs (fst (process_data P w input_path out)) input_path = fs w input_path"
  using process_data_fs_cases[of P w input_path out] assms by auto

lemma process_data_write_status:
  "write_status (fst (process_data P w input_path out)) out = write_status w out"
proof -
  let ?w' = "fst (process_data P w input_path out)"
  from process_data_fs_cases[of P w input_path out]
  consider (same) "fs ?w' = fs w"
    | (wrote) t where "fs ?w' = (fs w)(out \<mapsto> File t)" "write_status w out = None"
    by blast
  then show ?thesis
  proof cases
    case same
    then show ?thesis by (simp add: write_status_def parent_is_dir_def)
  next
    case (wrote t)
    have "?w' = ?w'\<lparr>fs := (fs w)(out \<mapsto> File t)\<rparr>" using wrote(1) by simp
    with write_status_after_write[OF wrote(2), where w' = ?w' and t = t] wrote(2)
    show ?thesis by simp
  qed
qed

section \<open>Claims\<close>

text \<open>
  C1 (as amended). Whenever steps 6 to 8 return (the renamed frame then has no repeated
  label and the file could be written), the frame written to the output file is
  the strict reindex of the renamed frame: its labels are the target list, in the target
  order, and there are 63 of them; it has the rows of the renamed frame; a target column
  the renamed frame has keeps its cells, a target column it lacks holds 0 in every row;
  and no label outside the target list is left.
\<close>

theorem enforce_schema_strict:
  assumes "snd (enforce_schema P w df_renamed output_filename) = Inr r"
  shows "\<exists>df_final. reindex df_renamed target_columns (Num 0) = Inr df_final
     \<and> fs (fst (enforce_schema P w df_renamed output_filename)) output_filename
         = Some (File (to_csv_text P df_final))
     \<and> columns df_final = target_columns \<and> length (columns df_final) = 63
     \<and> nrows df_final = nrows df_renamed
     \<and> (\<forall>c\<in>set target_columns.
           getitem df_final c =
             (if c \<in> set (columns df_renamed) then getitem df_renamed c
              else Inr (replicate (nrows df_renamed) (Num 0))))
     \<and> (\<forall>c. c \<notin> set target_columns \<longrightarrow> c \<notin> set (columns df_final))"
proof -
  from enforce_schema_Inr[OF assms] obtain df_final where
    r: "reindex df_renamed target_columns (Num 0) = Inr df_final" and
    f: "fs (fst (enforce_schema P w df_renamed output_filename)) output_filename
         = Some (File (to_csv_text P df_final))"
    by blast
  have c: "columns df_final = target_columns" and n: "nrows df_final = nrows df_renamed"
    using columns_reindex[OF r] by simp_all
  have d: "distinct (columns df_renamed)"
    using r by (auto simp: reindex_def split: if_splits)
  have g: "getitem df_final c =
             (if c \<in> set (columns df_renamed) then getitem df_renamed c
              else Inr (replicate (nrows df_renamed) (Num 0)))"
    if "c \<in> set target_columns" for c
  proof (cases "c \<in> set (columns df_renamed)")
    case True
    from getitem_map_of[OF d True] obtain xs where
      "map_of (cols df_renamed) c = Some xs" "getitem df_renamed c = Inr xs" by blast
    with getitem_reindex[OF r distinct_target_columns that] True show ?thesis by simp
  next
    case False
    then have "map_of (cols df_renamed) c = None"
      by (simp add: columns_def map_of_eq_None_iff)
    with getitem_reindex[OF r distinct_target_columns that] False show ?thesis by simp
  qed
  have l: "length (columns df_final) = 63"
    by (simp add: c length_target_columns)
  have x: "\<forall>c. c \<notin> set target_columns \<longrightarrow> c \<notin> set (columns df_final)"
    by (simp add: c)
  from g have g': "\<forall>c\<in>set target_columns.
           getitem df_final c =
             (if c \<in> set (columns df_renamed) then getitem df_renamed c
              else Inr (replicate (nrows df_renamed) (Num 0)))"
    by blast
  show ?thesis
    by (rule exI[of _ df_final]) (intro conjI r f c l n g' x)
qed

theorem enforce_schema_strict_witness:
  "snd (enforce_schema demo_pandas demo_world small_table ''out.csv'') = Inr (Some expected_header)
   \<and> (\<exists>df_final. reindex small_table target_columns (Num 0) = Inr df_final
     \<and> fs (fst (enforce_schema demo_pandas demo_world small_table ''out.csv'')) ''out.csv''
         = Some (File (to_csv_text demo_pandas df_final))
     \<and> columns df_final = target_columns \<and> length (columns df_final) = 63
     \<and> nrows df_final = 2
     \<and> getitem df_final ''age'' = Inr [Num 0, Num 1]
     \<and> getitem df_final ''class'' = Inr [Num 0, Num 0]
     \<and> ''other'' \<notin> set (columns df_final))"
proof -
  have age: "''age'' \<in> set target_columns" and cl: "''class'' \<in> set target_columns"
    and ot: "''other'' \<notin> set target_columns"
    by code_simp+
  have ga: "getitem small_table ''age'' = Inr [Num 0, Num 1]"
    by (simp add: getitem_def small_table_def)
  have cs: "columns small_table = [''age'', ''other'']" and n: "nrows small_table = 2"
    by (simp_all add: small_table_def columns_def)
  from enforce_schema_strict[OF small_run] obtain df_final where
    h: "reindex small_table target_columns (Num 0) = Inr df_final"
     "fs (fst (enforce_schema demo_pandas demo_world small_table ''out.csv'')) ''out.csv''
         = Some (File (to_csv_text demo_pandas df_final))"
     "columns df_final = target_columns" "length (columns df_final) = 63"
     "nrows df_final = nrows small_table"
     "\<forall>c\<in>set target_columns.
           getitem df_final c =
             (if c \<in> set (columns small_table) then getitem small_table c
              else Inr (replicate (nrows small_table) (Num 0)))"
     "\<forall>c. c \<notin> set target_columns \<longrightarrow> c \<notin> set (columns df_final)"
    by blast
  from h(6) age have a: "getitem df_final ''age'' = Inr [Num 0, Num 1]"
    by (simp add: cs ga)
  from h(6)[rule_format, OF cl] have c: "getitem df_final ''class'' = Inr [Num 0, Num 0]"
    by (simp add: cs n numeral_2_eq_2)
  from h(7) ot have o: "''other'' \<notin> set (columns df_final)" by blast
  show ?thesis
    using small_run h(1-5) a c o n by auto
qed

text \<open>
  C1 as stated speaks of every input table and of 62 target columns. The list in the
  source has 63 entries, so a reindexed frame has 63 columns. And not every table gets an
  output: when the rename pass gives two columns the same label, the reindex raises
  \<^verbatim>\<open>ValueError\<close> and no file is written.
\<close>

theorem enforce_schema_counterexample:
  "(case reindex small_table target_columns (Num 0) of
      Inl e \<Rightarrow> 0 | Inr df_final \<Rightarrow> length (columns df_final)) = 63
   \<and> (63::nat) \<noteq> 62
   \<and> columns (rename_columns final_col clash_encoded) = [''age'', ''default=0'', ''default=0'']
   \<and> snd (enforce_schema demo_pandas demo_world (rename_columns final_col clash_encoded)
           ''out.csv'') = Inl ValueError
   \<and> fs (fst (enforce_schema demo_pandas demo_world (rename_columns final_col clash_encoded)
           ''out.csv'')) ''out.csv'' = None"
proof -
  have "distinct (columns small_table)" by (simp add: small_table_def columns_def)
  then have a: "(case reindex small_table target_columns (Num 0) of
      Inl e \<Rightarrow> 0 | Inr df_final \<Rightarrow> length (columns df_final)) = 63"
    by (simp add: reindex_def columns_def length_target_columns)
  have b: "columns (rename_columns final_col clash_encoded) = [''age'', ''default=0'', ''default=0'']"
    by (simp add: clash_renamed columns_def)
  have c: "fs demo_world ''out.csv'' = None" by (simp add: demo_world_def)
  show ?thesis using a b c clash_raises[of demo_pandas demo_world "''out.csv''"] by simp
qed

text \<open>
  C10 (as amended). Whenever \<^verbatim>\<open>process_data\<close> returns a header, it is the literal the
  entry point expects, which is the comma-joined list of the 63 target names, whatever the
  input data; and no run of the entry point prints the FAILED verdict.
\<close>

theorem header_is_expected:
  "(snd (process_data P w input_path output_filename) = Inr (Some header)
      \<longrightarrow> header = expected_header \<and> header = join '','' target_columns
          \<and> length target_columns = 63)
   \<and> failed_message \<notin> set (drop (length (stdout w)) (stdout (fst (main P w))))"
proof -
  from main_stdout[of P w] obtain ls where
    "stdout (fst (main P w)) = stdout w @ ls" "failed_message \<notin> set ls" by blast
  then have "failed_message \<notin> set (drop (length (stdout w)) (stdout (fst (main P w))))"
    by simp
  then show ?thesis
    using process_data_header[of P w input_path output_filename header]
    by (simp add: join_target_columns length_target_columns)
qed

theorem header_is_expected_witness:
  "snd (process_data demo_pandas demo_world ''bank-additional-full.csv''
         ''dataBank_transformed.csv'') = Inr (Some expected_header)
   \<and> expected_header = join '','' target_columns
   \<and> length target_columns = 63
   \<and> failed_message \<notin> set (drop (length (stdout demo_world))
                              (stdout (fst (main demo_pandas demo_world))))"
  using header_is_expected[of demo_pandas demo_world "''bank-additional-full.csv''"
          "''dataBank_transformed.csv''" expected_header] demo_run
  by simp

text \<open>
  C10 as stated calls the literal a list of 62 names. The header a run returns joins 63
  names with 62 commas.
\<close>

theorem header_has_63_names:
  "snd (process_data demo_pandas demo_world ''bank-additional-full.csv''
         ''dataBank_transformed.csv'') = Inr (Some (join '','' target_columns))
   \<and> length target_columns = 63
   \<and> count_list (join '','' target_columns) CHR '','' = 62"
  using demo_run commas_expected_header
  by (simp add: join_target_columns length_target_columns)

text \<open>
  C6 (as amended). Step 2 relabels the column \<^verbatim>\<open>y\<close> as \<^verbatim>\<open>class\<close>. When the frame
  then has one column \<^verbatim>\<open>class\<close>, its cells are mapped: the text yes to 1, the text no to
  0 and every other cell to the missing value; all other columns stay as they are, and a
  frame with neither label is left alone. When the frame held both \<^verbatim>\<open>y\<close> and
  \<^verbatim>\<open>class\<close> and has a row, the step raises \<^verbatim>\<open>TypeError\<close> and maps nothing.
\<close>

theorem prepare_class_column:
  "(length (filter (\<lambda>c. c = ''y'' \<or> c = ''class'') (columns df0)) \<le> 1 \<longrightarrow>
      prepare df0 =
        Inr (df0\<lparr>cols := map (\<lambda>p. if fst p = ''y'' \<or> fst p = ''class''
                                    then (''class'', map class_map (snd p)) else p)
                              (cols df0)\<rparr>))
   \<and> (1 < length (filter (\<lambda>c. c = ''y'' \<or> c = ''class'') (columns df0)) \<and> 0 < nrows df0
        \<longrightarrow> prepare df0 = Inl TypeError)
   \<and> class_map (Str ''yes'') = Num 1 \<and> class_map (Str ''no'') = Num 0
   \<and> (\<forall>v. v \<noteq> Str ''yes'' \<and> v \<noteq> Str ''no'' \<longrightarrow> class_map v = NaN)"
  using prepare_cases[of df0] by (simp add: class_map_def)

theorem prepare_class_column_witness:
  "prepare \<lparr>nrows = 3, cols = [(''age'', [Num 1, Num 2, Num 3]),
                               (''y'', [Str ''yes'', Str ''no'', Str ''maybe''])]\<rparr>
     = Inr \<lparr>nrows = 3, cols = [(''age'', [Num 1, Num 2, Num 3]),
                                (''class'', [Num 1, Num 0, NaN])]\<rparr>
   \<and> prepare \<lparr>nrows = 1, cols = [(''class'', [Str ''no'']), (''other'', [Str ''yes''])]\<rparr>
     = Inr \<lparr>nrows = 1, cols = [(''class'', [Num 0]), (''other'', [Str ''yes''])]\<rparr>
   \<and> prepare \<lparr>nrows = 1, cols = [(''age'', [Num 1])]\<rparr>
     = Inr \<lparr>nrows = 1, cols = [(''age'', [Num 1])]\<rparr>
   \<and> prepare \<lparr>nrows = 1, cols = [(''y'', [Str ''yes'']), (''class'', [Str ''no''])]\<rparr>
     = Inl TypeError
   \<and> class_map (Str ''maybe'') = NaN \<and> class_map (Num 1) = NaN \<and> class_map NaN = NaN"
  using
    prepare_class_column[of "\<lparr>nrows = 3, cols = [(''age'', [Num 1, Num 2, Num 3]),
                               (''y'', [Str ''yes'', Str ''no'', Str ''maybe''])]\<rparr>"]
    prepare_class_column[of "\<lparr>nrows = 1, cols = [(''class'', [Str ''no'']), (''other'', [Str ''yes''])]\<rparr>"]
    prepare_class_column[of "\<lparr>nrows = 1, cols = [(''age'', [Num 1])]\<rparr>"]
    prepare_class_column[of "\<lparr>nrows = 1, cols = [(''y'', [Str ''yes'']), (''class'', [Str ''no''])]\<rparr>"]
  by (simp add: columns_def class_map_def)

text \<open>
  C6 as stated has the label values mapped whenever a column \<^verbatim>\<open>class\<close> is present. A
  frame that holds both \<^verbatim>\<open>y\<close> and \<^verbatim>\<open>class\<close> has two such columns after the
  relabelling, and the mapping raises instead.
\<close>

theorem prepare_both_labels_raises:
  "prepare \<lparr>nrows = 2, cols = [(''age'', [Num 30, Num 60]),
                               (''y'', [Str ''yes'', Str ''no'']),
                               (''class'', [Str ''no'', Str ''yes''])]\<rparr>
     = Inl TypeError"
  by (simp add: prepare_def Let_def rename_columns_def rename_y_def columns_def)

text \<open>
  C8 (as amended). The missing list holds exactly the target columns that the renamed
  frame lacks, in the order of the target list. Step 6 prints one \<^verbatim>\<open>[MISSING]\<close> line
  for each of them, in that order and one after the other. The report never ends the run:
  what the run returns or raises is what the reindex and the write of the file give,
  whatever the list. When the renamed frame has no repeated label, the reindex gives a
  frame whose missing columns hold 0 in every row, and the outcome of the run is that of
  writing it: the exception of the write, or the header, with that frame in the file.
\<close>

theorem missing_columns_reported:
  "set (missing_columns df) = set target_columns - set (columns df)
   \<and> subseq (missing_columns df) target_columns
   \<and> sublist (map (\<lambda>col. ''  [MISSING] '' @ col) (missing_columns df))
        (drop (length (stdout w)) (stdout (fst (enforce_schema P w df out))))
   \<and> snd (enforce_schema P w df out) =
        (case reindex df target_columns (Num 0) of
           Inl e \<Rightarrow> Inl e
         | Inr df_final \<Rightarrow>
             (case to_csv P w df_final out of
                Inl e \<Rightarrow> Inl e
              | Inr w2 \<Rightarrow> Inr (Some (join '','' (columns df_final)))))
   \<and> (distinct (columns df) \<longrightarrow>
        (\<exists>df_final. reindex df target_columns (Num 0) = Inr df_final
           \<and> (\<forall>c\<in>set (missing_columns df).
                 getitem df_final c = Inr (replicate (nrows df) (Num 0)))
           \<and> (case to_csv P w df_final out of
                 Inl e \<Rightarrow> snd (enforce_schema P w df out) = Inl e
               | Inr w2 \<Rightarrow>
                   snd (enforce_schema P w df out) = Inr (Some expected_header)
                   \<and> fs (fst (enforce_schema P w df out)) out
                       = Some (File (to_csv_text P df_final)))))"
proof -
  have a: "set (missing_columns df) = set target_columns - set (columns df)"
    by (auto simp: missing_columns_def present_columns_def)
  have b: "subseq (missing_columns df) target_columns"
    by (simp add: missing_columns_def)
  from enforce_schema_stdout_eq[of P w df out] obtain rest where
    "stdout (fst (enforce_schema P w df out))
      = stdout w @ missing_report (missing_columns df) @ rest" by blast
  then have "drop (length (stdout w)) (stdout (fst (enforce_schema P w df out)))
      = missing_report (missing_columns df) @ rest" by simp
  then have c: "sublist (map (\<lambda>col. ''  [MISSING] '' @ col) (missing_columns df))
        (drop (length (stdout w)) (stdout (fst (enforce_schema P w df out))))"
    using missing_lines_in_report[of "missing_columns df"]
    by (simp add: sublist_append)
  note o = enforce_schema_outcome[of P w df out]
  have d: "\<exists>df_final. reindex df target_columns (Num 0) = Inr df_final
           \<and> (\<forall>c\<in>set (missing_columns df).
                 getitem df_final c = Inr (replicate (nrows df) (Num 0)))
           \<and> (case to_csv P w df_final out of
                 Inl e \<Rightarrow> snd (enforce_schema P w df out) = Inl e
               | Inr w2 \<Rightarrow>
                   snd (enforce_schema P w df out) = Inr (Some expected_header)
                   \<and> fs (fst (enforce_schema P w df out)) out
                       = Some (File (to_csv_text P df_final)))"
    if h: "distinct (columns df)"
  proof -
    from h obtain df_final where r: "reindex df target_columns (Num 0) = Inr df_final"
      by (simp add: reindex_def)
    have z: "\<forall>c\<in>set (missing_columns df).
                 getitem df_final c = Inr (replicate (nrows df) (Num 0))"
    proof
      fix c assume "c \<in> set (missing_columns df)"
      with a have m: "c \<in> set target_columns" "c \<notin> set (columns df)" by auto
      then have "map_of (cols df) c = None"
        by (simp add: columns_def map_of_eq_None_iff)
      with getitem_reindex[OF r distinct_target_columns m(1)]
      show "getitem df_final c = Inr (replicate (nrows df) (Num 0))" by simp
    qed
    have j: "join '','' (columns df_final) = expected_header"
      using columns_reindex[OF r] by (simp add: join_target_columns)
    have w: "case to_csv P w df_final out of
                 Inl e \<Rightarrow> snd (enforce_schema P w df out) = Inl e
               | Inr w2 \<Rightarrow>
                   snd (enforce_schema P w df out) = Inr (Some expected_header)
                   \<and> fs (fst (enforce_schema P w df out)) out
                       = Some (File (to_csv_text P df_final))"
    proof (cases "to_csv P w df_final out")
      case (Inl e)
      then show ?thesis using o r by simp
    next
      case (Inr w2)
      then have s: "snd (enforce_schema P w df out) = Inr (Some expected_header)"
        using o r j by simp
      from enforce_schema_Inr[OF s] r have
        "fs (fst (enforce_schema P w df out)) out = Some (File (to_csv_text P df_final))"
        by auto
      with s Inr show ?thesis by simp
    qed
    from r z w show ?thesis by blast
  qed
  show ?thesis using a b c o d by blast
qed

theorem missing_columns_reported_witness:
  "''job=student'' \<in> set (missing_columns small_table)
   \<and> ''age'' \<notin> set (missing_columns small_table)
   \<and> subseq (missing_columns small_table) target_columns
   \<and> sublist (map (\<lambda>col. ''  [MISSING] '' @ col) (missing_columns small_table))
        (drop (length (stdout demo_world))
           (stdout (fst (enforce_schema demo_pandas demo_world small_table ''out.csv''))))
   \<and> snd (enforce_schema demo_pandas demo_world small_table ''out.csv'')
        = Inr (Some expected_header)
   \<and> (\<exists>df_final. reindex small_table target_columns (Num 0) = Inr df_final
         \<and> fs (fst (enforce_schema demo_pandas demo_world small_table ''out.csv'')) ''out.csv''
              = Some (File (to_csv_text demo_pandas df_final))
         \<and> getitem df_final ''job=student'' = Inr [Num 0, Num 0])"
proof -
  have js: "''job=student'' \<in> set target_columns" and age: "''age'' \<in> set target_columns"
    by code_simp+
  have cs: "columns small_table = [''age'', ''other'']" and n: "nrows small_table = 2"
    by (simp_all add: small_table_def columns_def)
  have d: "distinct (columns small_table)" by (simp add: cs)
  have f: "fs demo_world ''out.csv'' \<noteq> Some Directory" "parent_is_dir demo_world ''out.csv''"
     "''out.csv'' \<noteq> []"
    by (simp_all add: demo_world_def parent_is_dir_def)
  note t = missing_columns_reported[of small_table demo_world demo_pandas "''out.csv''"]
  from t have m: "set (missing_columns small_table) = set target_columns - set (columns small_table)"
    by blast
  from m js have a: "''job=student'' \<in> set (missing_columns small_table)" by (simp add: cs)
  from m have b: "''age'' \<notin> set (missing_columns small_table)" by (simp add: cs)
  from t d obtain df_final where
    h0: "reindex small_table target_columns (Num 0) = Inr df_final"
       "\<forall>c\<in>set (missing_columns small_table).
                    getitem df_final c = Inr (replicate (nrows small_table) (Num 0))"
       "case to_csv demo_pandas demo_world df_final ''out.csv'' of
                 Inl e \<Rightarrow> snd (enforce_schema demo_pandas demo_world small_table ''out.csv'') = Inl e
               | Inr w2 \<Rightarrow>
                   snd (enforce_schema demo_pandas demo_world small_table ''out.csv'')
                     = Inr (Some expected_header)
                   \<and> fs (fst (enforce_schema demo_pandas demo_world small_table ''out.csv''))
                        ''out.csv'' = Some (File (to_csv_text demo_pandas df_final))"
    by blast
  have "\<exists>w2. to_csv demo_pandas demo_world df_final ''out.csv'' = Inr w2"
    using f by (simp add: to_csv_def)
  with h0(3) have
    h: "reindex small_table target_columns (Num 0) = Inr df_final"
       "fs (fst (enforce_schema demo_pandas demo_world small_table ''out.csv'')) ''out.csv''
              = Some (File (to_csv_text demo_pandas df_final))"
       "\<forall>c\<in>set (missing_columns small_table).
                    getitem df_final c = Inr (replicate (nrows small_table) (Num 0))"
    and s: "snd (enforce_schema demo_pandas demo_world small_table ''out.csv'')
        = Inr (Some expected_header)"
    using h0(1,2) by auto
  from h(3) a have g: "getitem df_final ''job=student'' = Inr [Num 0, Num 0]"
    by (simp add: n numeral_2_eq_2)
  from t have sq: "subseq (missing_columns small_table) target_columns" by blast
  from t have sl: "sublist (map (\<lambda>col. ''  [MISSING] '' @ col) (missing_columns small_table))
        (drop (length (stdout demo_world))
           (stdout (fst (enforce_schema demo_pandas demo_world small_table ''out.csv''))))"
    by blast
  show ?thesis using a b sq sl s h(1,2) g by blast
qed

text \<open>
  C8 as stated has every run with a non-empty missing list succeed. A renamed frame with a
  repeated label has its missing columns reported, and then the reindex raises
  \<^verbatim>\<open>ValueError\<close>: nothing is written and nothing is zero-filled.
\<close>

theorem missing_report_then_raise:
  "''job=student'' \<in> set (missing_columns (rename_columns final_col clash_encoded))
   \<and> sublist [''  [MISSING] job=student'']
        (drop (length (stdout demo_world))
           (stdout (fst (enforce_schema demo_pandas demo_world
                           (rename_columns final_col clash_encoded) ''out.csv''))))
   \<and> snd (enforce_schema demo_pandas demo_world (rename_columns final_col clash_encoded)
           ''out.csv'') = Inl ValueError
   \<and> fs (fst (enforce_schema demo_pandas demo_world (rename_columns final_col clash_encoded)
           ''out.csv'')) ''out.csv'' = None"
proof -
  let ?df = "rename_columns final_col clash_encoded"
  have js: "''job=student'' \<in> set target_columns" by code_simp
  have cs: "columns ?df = [''age'', ''default=0'', ''default=0'']"
    by (simp add: clash_renamed columns_def)
  have a: "''job=student'' \<in> set (missing_columns ?df)"
    using js by (simp add: missing_columns_def present_columns_def cs)
  then obtain ys zs where "missing_columns ?df = ys @ ''job=student'' # zs"
    by (meson split_list)
  then have "map (\<lambda>col. ''  [MISSING] '' @ col) (missing_columns ?df)
      = map (\<lambda>col. ''  [MISSING] '' @ col) ys @ [''  [MISSING] job=student'']
        @ map (\<lambda>col. ''  [MISSING] '' @ col) zs" by simp
  then have s1: "sublist [''  [MISSING] job=student'']
      (map (\<lambda>col. ''  [MISSING] '' @ col) (missing_columns ?df))"
    unfolding sublist_def by blast
  from enforce_schema_stdout_eq[of demo_pandas demo_world ?df "''out.csv''"] obtain rest where
    "stdout (fst (enforce_schema demo_pandas demo_world ?df ''out.csv''))
      = stdout demo_world @ missing_report (missing_columns ?df) @ rest" by blast
  then have "drop (length (stdout demo_world))
       (stdout (fst (enforce_schema demo_pandas demo_world ?df ''out.csv'')))
      = missing_report (missing_columns ?df) @ rest" by simp
  moreover have "sublist [''  [MISSING] job=student''] (missing_report (missing_columns ?df))"
    using s1 missing_lines_in_report[of "missing_columns ?df"] sublist_order.order_trans by blast
  ultimately have b: "sublist [''  [MISSING] job=student'']
        (drop (length (stdout demo_world))
           (stdout (fst (enforce_schema demo_pandas demo_world ?df ''out.csv''))))"
    by (simp add: sublist_append)
  have c: "fs demo_world ''out.csv'' = None" by (simp add: demo_world_def)
  show ?thesis
    using a b c clash_raises[of demo_pandas demo_world "''out.csv''"] by simp
qed



text \<open>
  C4. When the maximum of a column equals its minimum, the scaling of that column is the
  constant column 0.0, one cell for each row of the frame, and it is not an exception: the
  step for that column returns the frame with the column replaced, without the
  subtractions and the division of the other branch. After the whole loop over the
  numeric columns the column still holds 0.0 in every row.
\<close>

theorem constant_column_zero:
  "col_min xs = Inr min_val \<and> col_max xs = Inr max_val \<and> \<not> py_ne max_val min_val \<longrightarrow>
     normalize_series n xs = Inr (replicate n (Num 0))
     \<and> (getitem df col = Inr xs \<longrightarrow>
          normalize_col df col = Inr (setitem df col (replicate (nrows df) (Num 0))))
     \<and> (getitem df col = Inr xs \<and> col \<in> set numeric_cols
          \<and> normalize_loop numeric_cols df = Inr df' \<longrightarrow>
          getitem df' col = Inr (replicate (nrows df) (Num 0)))"
proof (intro impI conjI)
  assume h: "col_min xs = Inr min_val \<and> col_max xs = Inr max_val \<and> \<not> py_ne max_val min_val"
  then show s: "normalize_series n xs = Inr (replicate n (Num 0))" for n
    using normalize_series_constant by blast
  {
    assume g: "getitem df col = Inr xs"
    then have "col \<in> set (columns df)" by (rule getitem_in_columns)
    then show "normalize_col df col = Inr (setitem df col (replicate (nrows df) (Num 0)))"
      using g s[of "nrows df"] by (simp add: normalize_col_def bind_err_def)
  }
  {
    assume a: "getitem df col = Inr xs \<and> col \<in> set numeric_cols
          \<and> normalize_loop numeric_cols df = Inr df'"
    then obtain ys where "normalize_series (nrows df) xs = Inr ys" "getitem df' col = Inr ys"
      using normalize_loop_same[of numeric_cols df df' col xs] distinct_numeric_cols by blast
    then show "getitem df' col = Inr (replicate (nrows df) (Num 0))"
      using s[of "nrows df"] by simp
  }
qed

theorem constant_column_zero_witness:
  "normalize_loop numeric_cols flat_table = Inr flat_normalized
   \<and> col_min [Num 5, Num 5, Num 5] = Inr (Num 5) \<and> col_max [Num 5, Num 5, Num 5] = Inr (Num 5)
   \<and> normalize_series 3 [Num 5, Num 5, Num 5] = Inr [Num 0, Num 0, Num 0]
   \<and> normalize_col flat_table ''age''
       = Inr (setitem flat_table ''age'' [Num 0, Num 0, Num 0])
   \<and> getitem flat_normalized ''age'' = Inr [Num 0, Num 0, Num 0]
   \<and> getitem flat_normalized ''pdays'' = Inr [Num 0, Num 0, Num 0]"
proof -
  have m: "col_min [Num 5, Num 5, Num 5] = Inr (Num 5)" "col_max [Num 5, Num 5, Num 5] = Inr (Num 5)"
    "col_min [Num 7, NaN, Num 7] = Inr (Num 7)" "col_max [Num 7, NaN, Num 7] = Inr (Num 7)"
    by (simp_all add: col_min_def col_max_def)
  have e: "\<not> py_ne (Num 5) (Num 5)" "\<not> py_ne (Num 7) (Num 7)" by (simp_all add: py_ne_def)
  have g: "getitem flat_table ''age'' = Inr [Num 5, Num 5, Num 5]"
    "getitem flat_table ''pdays'' = Inr [Num 7, NaN, Num 7]"
    by (simp_all add: getitem_def flat_table_def)
  have c: "''age'' \<in> set numeric_cols" "''pdays'' \<in> set numeric_cols"
    by (simp_all add: numeric_cols_def)
  have n: "nrows flat_table = 3" by (simp add: flat_table_def)
  note t1 = constant_column_zero[of "[Num 5, Num 5, Num 5]" "Num 5" "Num 5" 3 flat_table
      "''age''" flat_normalized]
  note t2 = constant_column_zero[of "[Num 7, NaN, Num 7]" "Num 7" "Num 7" 3 flat_table
      "''pdays''" flat_normalized]
  from t1 m e g c flat_run have
    "normalize_series 3 [Num 5, Num 5, Num 5] = Inr (replicate 3 (Num 0))"
    "normalize_col flat_table ''age'' = Inr (setitem flat_table ''age'' (replicate 3 (Num 0)))"
    "getitem flat_normalized ''age'' = Inr (replicate 3 (Num 0))"
    by (simp_all add: n)
  moreover from t2 m e g c flat_run have
    "getitem flat_normalized ''pdays'' = Inr (replicate 3 (Num 0))"
    by (simp add: n)
  ultimately show ?thesis
    using flat_run m by (simp add: numeral_3_eq_3)
qed




text \<open>
  C5. The claim has the encoder expand every categorical column that is present. The call
  \<^verbatim>\<open>pd.get_dummies(df, columns=categorical_cols, ...)\<close> names all ten columns, and
  pandas selects them with \<^verbatim>\<open>df[categorical_cols]\<close>: on a frame that has \<^verbatim>\<open>job\<close> but
  lacks another categorical column, steps 2 and 3 go through and step 4 raises
  \<^verbatim>\<open>KeyError\<close>, so no indicator column is made for \<^verbatim>\<open>job\<close> either.
\<close>

theorem one_hot_needs_all_columns:
  "''job'' \<in> set (columns partial_table)
   \<and> prepare partial_table
       = Inr \<lparr>nrows = 2,
              cols = [(''age'', [Num 30, Num 60]),
                      (''job'', [Str ''admin.'', Str ''student'']),
                      (''class'', [Num 0, Num 1])]\<rparr>
   \<and> normalize_loop numeric_cols
         \<lparr>nrows = 2,
          cols = [(''age'', [Num 30, Num 60]),
                  (''job'', [Str ''admin.'', Str ''student'']),
                  (''class'', [Num 0, Num 1])]\<rparr>
       = Inr \<lparr>nrows = 2,
              cols = [(''age'', [Num 0, Num 1]),
                      (''job'', [Str ''admin.'', Str ''student'']),
                      (''class'', [Num 0, Num 1])]\<rparr>
   \<and> get_dummies P
         \<lparr>nrows = 2,
          cols = [(''age'', [Num 0, Num 1]),
                  (''job'', [Str ''admin.'', Str ''student'']),
                  (''class'', [Num 0, Num 1])]\<rparr>
         categorical_cols categorical_cols
       = Inl KeyError
   \<and> bind_err (prepare partial_table) (transform P) = Inl KeyError"
proof -
  have a: "''job'' \<in> set (columns partial_table)"
    by (simp add: partial_table_def columns_def)
  have b: "prepare partial_table
       = Inr \<lparr>nrows = 2,
              cols = [(''age'', [Num 30, Num 60]),
                      (''job'', [Str ''admin.'', Str ''student'']),
                      (''class'', [Num 0, Num 1])]\<rparr>"
    by code_simp
  have c: "normalize_loop numeric_cols
         \<lparr>nrows = 2,
          cols = [(''age'', [Num 30, Num 60]),
                  (''job'', [Str ''admin.'', Str ''student'']),
                  (''class'', [Num 0, Num 1])]\<rparr>
       = Inr \<lparr>nrows = 2,
              cols = [(''age'', [Num 0, Num 1]),
                      (''job'', [Str ''admin.'', Str ''student'']),
                      (''class'', [Num 0, Num 1])]\<rparr>"
    by code_simp
  have d: "get_dummies P
         \<lparr>nrows = 2,
          cols = [(''age'', [Num 0, Num 1]),
                  (''job'', [Str ''admin.'', Str ''student'']),
                  (''class'', [Num 0, Num 1])]\<rparr>
         categorical_cols categorical_cols
       = Inl KeyError"
    by (simp add: get_dummies_def columns_def categorical_cols_def)
  from b c d have "bind_err (prepare partial_table) (transform P) = Inl KeyError"
    by (simp add: bind_err_def transform_def)
  with a b c d show ?thesis by simp
qed

text \<open>
  C9. What a run returns, and the text it writes to the output file, depend on the world
  only through the content of the input file and through whether the output file can be
  written: two runs in worlds that agree on these return the same header or raise the
  same exception, and when they return a header they leave the same text in the output
  file. In particular a second run after a first one that left the input file as it was
  returns the same and leaves the output file as the first run wrote it.
\<close>

theorem process_data_deterministic:
  "(fs w1 input_path = fs w2 input_path
      \<and> parent_is_dir w1 out = parent_is_dir w2 out
      \<and> (fs w1 out = Some Directory) = (fs w2 out = Some Directory) \<longrightarrow>
      snd (process_data P w1 input_path out) = snd (process_data P w2 input_path out)
      \<and> (snd (process_data P w1 input_path out) = Inr (Some header) \<longrightarrow>
           fs (fst (process_data P w1 input_path out)) out
             = fs (fst (process_data P w2 input_path out)) out
           \<and> (\<exists>df_final. fs (fst (process_data P w1 input_path out)) out
                  = Some (File (to_csv_text P df_final)))))
   \<and> (fs (fst (process_data P w input_path out)) input_path = fs w input_path \<longrightarrow>
        snd (process_data P (fst (process_data P w input_path out)) input_path out)
          = snd (process_data P w input_path out)
        \<and> (snd (process_data P w input_path out) = Inr (Some header) \<longrightarrow>
             fs (fst (process_data P (fst (process_data P w input_path out)) input_path out)) out
               = fs (fst (process_data P w input_path out)) out))"
proof (intro conjI impI)
  assume h: "fs w1 input_path = fs w2 input_path
      \<and> parent_is_dir w1 out = parent_is_dir w2 out
      \<and> (fs w1 out = Some Directory) = (fs w2 out = Some Directory)"
  then have i: "fs w1 input_path = fs w2 input_path" by blast
  from h have s: "write_status w1 out = write_status w2 out"
    using write_status_same by blast
  from process_data_two_worlds(1)[OF i s] show
    "snd (process_data P w1 input_path out) = snd (process_data P w2 input_path out)" .
  {
    assume r: "snd (process_data P w1 input_path out) = Inr (Some header)"
    from process_data_two_worlds(2)[OF i s r] show
      "fs (fst (process_data P w1 input_path out)) out
             = fs (fst (process_data P w2 input_path out)) out" by blast
    from process_data_two_worlds(2)[OF i s r] show
      "\<exists>df_final. fs (fst (process_data P w1 input_path out)) out
                  = Some (File (to_csv_text P df_final))" by blast
  }
next
  let ?w' = "fst (process_data P w input_path out)"
  assume n: "fs ?w' input_path = fs w input_path"
  note a = n process_data_write_status[of P w input_path out]
  from process_data_two_worlds(1)[OF a] show
    "snd (process_data P ?w' input_path out) = snd (process_data P w input_path out)" .
  then have e: "snd (process_data P ?w' input_path out) = snd (process_data P w input_path out)" .
  assume r: "snd (process_data P w input_path out) = Inr (Some header)"
  with e have "snd (process_data P ?w' input_path out) = Inr (Some header)" by simp
  from process_data_two_worlds(2)[OF a this] show
    "fs (fst (process_data P ?w' input_path out)) out = fs ?w' out" by blast
qed

theorem process_data_deterministic_witness:
  "snd (process_data demo_pandas demo_world ''bank-additional-full.csv''
          ''dataBank_transformed.csv'') = Inr (Some expected_header)
   \<and> snd (process_data demo_pandas other_world ''bank-additional-full.csv''
          ''dataBank_transformed.csv'') = Inr (Some expected_header)
   \<and> fs (fst (process_data demo_pandas demo_world ''bank-additional-full.csv''
                 ''dataBank_transformed.csv'')) ''dataBank_transformed.csv''
       = fs (fst (process_data demo_pandas other_world ''bank-additional-full.csv''
                 ''dataBank_transformed.csv'')) ''dataBank_transformed.csv''
   \<and> snd (process_data demo_pandas
            (fst (process_data demo_pandas demo_world ''bank-additional-full.csv''
                    ''dataBank_transformed.csv''))
            ''bank-additional-full.csv'' ''dataBank_transformed.csv'')
       = Inr (Some expected_header)
   \<and> fs (fst (process_data demo_pandas
                (fst (process_data demo_pandas demo_world ''bank-additional-full.csv''
                        ''dataBank_transformed.csv''))
                ''bank-additional-full.csv'' ''dataBank_transformed.csv''))
          ''dataBank_transformed.csv''
       = fs (fst (process_data demo_pandas demo_world ''bank-additional-full.csv''
                    ''dataBank_transformed.csv'')) ''dataBank_transformed.csv''"
proof -
  have n: "''bank-additional-full.csv'' \<noteq> ''dataBank_transformed.csv''" by simp
  have a: "fs demo_world ''bank-additional-full.csv'' = fs other_world ''bank-additional-full.csv''"
    "parent_is_dir demo_world ''dataBank_transformed.csv''
       = parent_is_dir other_world ''dataBank_transformed.csv''"
    "(fs demo_world ''dataBank_transformed.csv'' = Some Directory)
       = (fs other_world ''dataBank_transformed.csv'' = Some Directory)"
    by (simp_all add: demo_world_def other_world_def parent_is_dir_def)
  note t = process_data_deterministic[of demo_world "''bank-additional-full.csv''" other_world
      "''dataBank_transformed.csv''" demo_pandas expected_header demo_world]
  from t a demo_run have
    b: "snd (process_data demo_pandas other_world ''bank-additional-full.csv''
          ''dataBank_transformed.csv'') = Inr (Some expected_header)"
       "fs (fst (process_data demo_pandas demo_world ''bank-additional-full.csv''
                 ''dataBank_transformed.csv'')) ''dataBank_transformed.csv''
       = fs (fst (process_data demo_pandas other_world ''bank-additional-full.csv''
                 ''dataBank_transformed.csv'')) ''dataBank_transformed.csv''"
    by simp_all
  from t process_data_keeps_input[OF n, of demo_pandas demo_world] demo_run have
    c: "snd (process_data demo_pandas
            (fst (process_data demo_pandas demo_world ''bank-additional-full.csv''
                    ''dataBank_transformed.csv''))
            ''bank-additional-full.csv'' ''dataBank_transformed.csv'')
       = Inr (Some expected_header)"
       "fs (fst (process_data demo_pandas
                (fst (process_data demo_pandas demo_world ''bank-additional-full.csv''
                        ''dataBank_transformed.csv''))
                ''bank-additional-full.csv'' ''dataBank_transformed.csv''))
          ''dataBank_transformed.csv''
       = fs (fst (process_data demo_pandas demo_world ''bank-additional-full.csv''
                    ''dataBank_transformed.csv'')) ''dataBank_transformed.csv''"
    by simp_all
  from demo_run b c show ?thesis by simp
qed

end
